theory Spec2Isabelle
  imports Complex_Main
begin

section \<open>Numeric model\<close>

text \<open>
  The program computes on Python floats. The first model is the exact-arithmetic reading of
  its expressions: every amount and rate is a \<open>real\<close>, loan term and payment frequency are
  Python integers (\<open>int\<close>), and no operation rounds or overflows. The amortization engine
  has a second model, on doubles, further down; it decides what the engine does where
  rounding matters.
\<close>

datatype py_error = ZeroDivisionError | ValueError | OverflowError

text \<open>Python's \<open>x ** n\<close> for a float base and an integer exponent.\<close>

definition py_pow :: "real \<Rightarrow> int \<Rightarrow> py_error + real" where
  "py_pow x n =
     (if 0 \<le> n then Inr (x ^ nat n)
      else if x = 0 then Inl ZeroDivisionError
      else Inr (1 / x ^ nat (- n)))"

section \<open>Amortization engine\<close>

text \<open>
  \<^verbatim>\<open>calculate_mortgage_payment\<close>: the annuity formula, with no guard of its own. Each of its
  two divisions raises \<open>ZeroDivisionError\<close> on a zero divisor.
\<close>

definition calculate_mortgage_payment :: "real \<Rightarrow> real \<Rightarrow> int \<Rightarrow> int \<Rightarrow> py_error + real" where
  "calculate_mortgage_payment principal_amount annual_rate years payments_per_year =
     (if payments_per_year = 0 then Inl ZeroDivisionError
      else
        let r = annual_rate / real_of_int payments_per_year;
            n = years * payments_per_year
        in case py_pow (1 + r) n of
             Inl e \<Rightarrow> Inl e
           | Inr p \<Rightarrow>
               if p - 1 = 0 then Inl ZeroDivisionError
               else Inr (principal_amount * (r * p) / (p - 1)))"

text \<open>The local variables of \<^verbatim>\<open>generate_amortization_schedule\<close>.\<close>

record sched_state =
  balance :: real
  payment_list :: "real list"
  interest_list :: "real list"
  principal_list :: "real list"

text \<open>
  The \<^verbatim>\<open>for\<close> loop, by the number of iterations left. The second argument is the period rate
  \<open>annual_rate / payments_per_year\<close>, the third the payment amount. The \<^verbatim>\<open>break\<close> branch
  returns without a recursive call.
\<close>

fun schedule_loop :: "nat \<Rightarrow> real \<Rightarrow> real \<Rightarrow> sched_state \<Rightarrow> sched_state" where
  "schedule_loop 0 rate payment_amount s = s"
| "schedule_loop (Suc k) rate payment_amount s =
     (let interest_payment = balance s * rate;
          principal_payment = payment_amount - interest_payment;
          bal = balance s - principal_payment
      in if bal < 0 then
           s\<lparr>balance := 0,
             payment_list := payment_list s @ [(principal_payment + bal) + interest_payment],
             interest_list := interest_list s @ [interest_payment],
             principal_list := principal_list s @ [principal_payment + bal]\<rparr>
         else
           schedule_loop k rate payment_amount
             (s\<lparr>balance := bal,
                payment_list := payment_list s @ [payment_amount],
                interest_list := interest_list s @ [interest_payment],
                principal_list := principal_list s @ [principal_payment]\<rparr>))"

definition init_state :: "real \<Rightarrow> sched_state" where
  "init_state principal_amount =
     \<lparr>balance = principal_amount, payment_list = [], interest_list = [], principal_list = []\<rparr>"

text \<open>
  The state in which the loop of \<^verbatim>\<open>generate_amortization_schedule\<close> ends. The division
  \<open>annual_rate / payments_per_year\<close> sits inside the loop body, and with
  \<open>payments_per_year = 0\<close> the range is empty, so the function never raises.
\<close>

definition run_schedule :: "real \<Rightarrow> real \<Rightarrow> int \<Rightarrow> int \<Rightarrow> real \<Rightarrow> sched_state" where
  "run_schedule principal_amount annual_rate years payments_per_year payment_amount =
     schedule_loop (nat (years * payments_per_year))
       (annual_rate / real_of_int payments_per_year) payment_amount (init_state principal_amount)"

definition generate_amortization_schedule ::
  "real \<Rightarrow> real \<Rightarrow> int \<Rightarrow> int \<Rightarrow> real \<Rightarrow> real list \<times> real list \<times> real list" where
  "generate_amortization_schedule principal_amount annual_rate years payments_per_year payment_amount =
     (let s = run_schedule principal_amount annual_rate years payments_per_year payment_amount
      in (payment_list s, interest_list s, principal_list s))"


section \<open>Array helpers\<close>

text \<open>
  Python's slice \<^verbatim>\<open>xs[s:e]\<close>: a negative bound counts from the end, and every bound is
  clamped to the list.
\<close>

definition py_clamp :: "nat \<Rightarrow> int \<Rightarrow> nat" where
  "py_clamp n i = (if i < 0 then nat (max 0 (int n + i)) else min n (nat i))"

definition py_slice :: "'a list \<Rightarrow> int \<Rightarrow> int \<Rightarrow> 'a list" where
  "py_slice xs s e =
     (let a = py_clamp (length xs) s; b = py_clamp (length xs) e
      in take (b - a) (drop a xs))"

text \<open>Elementwise numpy arithmetic on arrays of one length, and with a scalar.\<close>

definition np_add :: "real list \<Rightarrow> real list \<Rightarrow> real list" where
  "np_add xs ys = map2 (+) xs ys"

definition np_sub :: "real list \<Rightarrow> real list \<Rightarrow> real list" where
  "np_sub xs ys = map2 (-) xs ys"

definition np_add_scalar :: "real list \<Rightarrow> real \<Rightarrow> real list" where
  "np_add_scalar xs c = map (\<lambda>x. x + c) xs"

definition np_scale :: "real \<Rightarrow> real list \<Rightarrow> real list" where
  "np_scale c xs = map (\<lambda>x. c * x) xs"

text \<open>\<^verbatim>\<open>base ** ks\<close> for an array \<open>ks\<close> of non-negative integers (the results of \<^verbatim>\<open>np.arange\<close>).\<close>

definition np_power :: "real \<Rightarrow> int list \<Rightarrow> real list" where
  "np_power base ks = map (\<lambda>k. base ^ nat k) ks"

definition np_diff :: "real list \<Rightarrow> real list" where
  "np_diff xs = map2 (-) (tl xs) xs"

section \<open>Investment projector\<close>

record params =
  property_value :: real
  loan_amount :: real
  interest_rate :: real
  loan_term :: int
  payment_frequency :: int
  annual_salary :: real
  marginal_tax_rate :: real
  weekly_rental_income :: real
  annual_rental_increase :: real
  annual_expense_increase :: real
  property_appreciation :: real
  council_rates :: real
  water_rates :: real
  land_tax :: real
  strata_fees :: real
  insurance :: real
  property_manager_rate :: real
  repairs_and_maintenance :: real
  depreciation :: real

text \<open>The data frame of the generalized projector (\<^verbatim>\<open>testpropertyCalc.py\<close>), by column.\<close>

record outlook =
  Year :: "int list"
  Rental_Income :: "real list"
  Interest_Payment :: "real list"
  Principal_Payment :: "real list"
  Other_Expenses :: "real list"
  Total_Cash_Outflows :: "real list"
  Net_Cash_Flow_Before_Tax :: "real list"
  Taxable_Income :: "real list"
  Tax_Benefit :: "real list"
  Net_Cash_Flow_After_Tax :: "real list"
  Capital_Gains :: "real list"
  Final_Net_Gain_Loss :: "real list"

text \<open>
  The loop that fills \<^verbatim>\<open>annual_interest\<close> and \<^verbatim>\<open>annual_principal\<close>, over the year indices
  still to visit. Its \<^verbatim>\<open>break\<close> leaves the remaining entries at their initial zero.
\<close>

fun annual_loop ::
  "real list \<Rightarrow> real list \<Rightarrow> int \<Rightarrow> int \<Rightarrow> int \<Rightarrow> nat list \<Rightarrow> real list \<times> real list
     \<Rightarrow> real list \<times> real list" where
  "annual_loop interests principals pf num_years rem [] acc = acc"
| "annual_loop interests principals pf num_years rem (i # rest) (annual_interest, annual_principal) =
     (if int i < num_years then
        let start_idx = int i * pf; end_idx = (int i + 1) * pf
        in annual_loop interests principals pf num_years rem rest
             (annual_interest[i := sum_list (py_slice interests start_idx end_idx)],
              annual_principal[i := sum_list (py_slice principals start_idx end_idx)])
      else if int i = num_years \<and> rem > 0 then
        let start_idx = int i * pf; end_idx = start_idx + rem
        in annual_loop interests principals pf num_years rem rest
             (annual_interest[i := sum_list (py_slice interests start_idx end_idx)],
              annual_principal[i := sum_list (py_slice principals start_idx end_idx)])
      else (annual_interest, annual_principal))"

text \<open>
  \<^verbatim>\<open>calculate_investment_outlook(params, investment_period)\<close> of \<^verbatim>\<open>testpropertyCalc.py\<close>.
  The loan term and the investment period are integers, so \<^verbatim>\<open>int(...)\<close> leaves them as
  they are. \<^verbatim>\<open>np.zeros\<close> raises \<open>ValueError\<close> on a negative length; the floor division by
  \<open>payment_frequency\<close> is reached only when the payment formula has not raised, hence with
  a non-zero divisor. Python's \<^verbatim>\<open>//\<close> and \<^verbatim>\<open>%\<close> on integers are \<open>div\<close> and \<open>mod\<close> on
  \<open>int\<close>: both round towards minus infinity.
\<close>

definition calculate_investment_outlook :: "params \<Rightarrow> int \<Rightarrow> py_error + outlook" where
  "calculate_investment_outlook p investment_period =
     (case calculate_mortgage_payment (loan_amount p) (interest_rate p) (loan_term p)
             (payment_frequency p) of
        Inl e \<Rightarrow> Inl e
      | Inr initial_mortgage_payment \<Rightarrow>
          (case generate_amortization_schedule (loan_amount p) (interest_rate p) (loan_term p)
                  (payment_frequency p) initial_mortgage_payment of
             (payments, interests, principals) \<Rightarrow>
               let investment_period_years = investment_period;
                   years = [1..investment_period_years]
               in if investment_period_years < 0 then Inl ValueError
                  else
                    let h = nat investment_period_years;
                        num_payments_made = int (length payments);
                        num_years_payments_made = num_payments_made div payment_frequency p;
                        remainder_payments = num_payments_made mod payment_frequency p;
                        annual = annual_loop interests principals (payment_frequency p)
                                   num_years_payments_made remainder_payments [0..<h]
                                   (replicate h 0, replicate h 0);
                        annual_interest = fst annual;
                        annual_principal = snd annual;
                        annual_rental_income_array =
                          map (\<lambda>i. weekly_rental_income p * 52 * ((1 + annual_rental_increase p) ^ i))
                            [0..<h];
                        council_rates_array =
                          np_scale (council_rates p) (np_power (1 + annual_expense_increase p) years);
                        water_rates_array =
                          np_scale (water_rates p) (np_power (1 + annual_expense_increase p) years);
                        strata_fees_array =
                          np_scale (strata_fees p) (np_power (1 + annual_expense_increase p) years);
                        insurance_array =
                          np_scale (insurance p) (np_power (1 + annual_expense_increase p) years);
                        property_manager_fees =
                          np_scale (property_manager_rate p) annual_rental_income_array;
                        other_expenses =
                          np_add_scalar
                            (np_add
                              (np_add
                                (np_add
                                  (np_add_scalar (np_add council_rates_array water_rates_array)
                                     (land_tax p))
                                  strata_fees_array)
                                insurance_array)
                              property_manager_fees)
                            (repairs_and_maintenance p);
                        total_cash_outflows =
                          np_add (np_add annual_interest annual_principal) other_expenses;
                        net_cash_flow_before_tax =
                          np_sub annual_rental_income_array total_cash_outflows;
                        taxable_income =
                          np_sub annual_rental_income_array
                            (np_add_scalar (np_add annual_interest other_expenses) (depreciation p));
                        tax_benefit =
                          map (\<lambda>x. (- x) * marginal_tax_rate p) taxable_income;
                        net_cash_flow_after_tax = np_add net_cash_flow_before_tax tax_benefit;
                        property_values =
                          np_scale (property_value p)
                            (np_power (1 + property_appreciation p) [0..investment_period_years]);
                        capital_gains = np_diff property_values;
                        final_net_gain_loss =
                          np_add net_cash_flow_after_tax
                            (py_slice capital_gains 0 investment_period_years)
                    in Inr \<lparr>Year = years,
                            Rental_Income = annual_rental_income_array,
                            Interest_Payment = annual_interest,
                            Principal_Payment = annual_principal,
                            Other_Expenses = other_expenses,
                            Total_Cash_Outflows = total_cash_outflows,
                            Net_Cash_Flow_Before_Tax = net_cash_flow_before_tax,
                            Taxable_Income = taxable_income,
                            Tax_Benefit = tax_benefit,
                            Net_Cash_Flow_After_Tax = net_cash_flow_after_tax,
                            Capital_Gains = py_slice capital_gains 0 investment_period_years,
                            Final_Net_Gain_Loss = final_net_gain_loss\<rparr>))"

text \<open>The data frame of the simple projector (\<^verbatim>\<open>PropertyCalc.py\<close>), by column.\<close>

record simple_outlook =
  S_Year :: "int list"
  S_Rental_Income :: "real list"
  S_Interest_Payment :: "real list"
  S_Principal_Payment :: "real list"
  S_Total_Expenses_Depreciation :: "real list"
  S_Net_Rental_Loss :: "real list"
  S_Tax_Benefit :: "real list"
  S_Cashflow_after_Negative_Gearing :: "real list"
  S_Capital_Gains :: "real list"
  S_Final_Net_Gain_Loss :: "real list"

text \<open>
  \<^verbatim>\<open>calculate_investment_outlook(params)\<close> of \<^verbatim>\<open>PropertyCalc.py\<close>: the horizon is the loan
  term, and every year sums the slice \<^verbatim>\<open>[i * f : (i + 1) * f]\<close> of the schedule.
\<close>

definition calculate_investment_outlook_simple :: "params \<Rightarrow> py_error + simple_outlook" where
  "calculate_investment_outlook_simple p =
     (case calculate_mortgage_payment (loan_amount p) (interest_rate p) (loan_term p)
             (payment_frequency p) of
        Inl e \<Rightarrow> Inl e
      | Inr initial_mortgage_payment \<Rightarrow>
          (case generate_amortization_schedule (loan_amount p) (interest_rate p) (loan_term p)
                  (payment_frequency p) initial_mortgage_payment of
             (payments, interests, principals) \<Rightarrow>
               let years = [1..loan_term p];
                   range_term = [0..<nat (loan_term p)];
                   annual_interest =
                     map (\<lambda>i. sum_list (py_slice interests (int i * payment_frequency p)
                                          ((int i + 1) * payment_frequency p))) range_term;
                   annual_principal =
                     map (\<lambda>i. sum_list (py_slice principals (int i * payment_frequency p)
                                          ((int i + 1) * payment_frequency p))) range_term;
                   annual_rental_income_array =
                     map (\<lambda>i. weekly_rental_income p * 52 * ((1 + annual_rental_increase p) ^ i))
                       range_term;
                   property_manager_fees =
                     np_scale (property_manager_rate p) annual_rental_income_array;
                   total_annual_expenses =
                     np_add_scalar
                       (np_add_scalar
                         (np_add
                           (np_add
                             (np_add
                               (np_add_scalar
                                 (np_add
                                   (np_add annual_interest
                                      (np_scale (council_rates p)
                                         (np_power (1 + annual_expense_increase p) years)))
                                   (np_scale (water_rates p)
                                      (np_power (1 + annual_expense_increase p) years)))
                                 (land_tax p))
                               (np_scale (strata_fees p)
                                  (np_power (1 + annual_expense_increase p) years)))
                             (np_scale (insurance p)
                                (np_power (1 + annual_expense_increase p) years)))
                           property_manager_fees)
                         (repairs_and_maintenance p))
                       (depreciation p);
                   net_rental_loss = np_sub annual_rental_income_array total_annual_expenses;
                   tax_benefit = map (\<lambda>x. (- x) * marginal_tax_rate p) net_rental_loss;
                   net_profit_loss_after_tax = np_add net_rental_loss tax_benefit;
                   property_values =
                     np_scale (property_value p)
                       (np_power (1 + property_appreciation p) [0..loan_term p]);
                   capital_gains = np_diff property_values;
                   final_net_gain_loss =
                     np_add net_profit_loss_after_tax (py_slice capital_gains 0 (loan_term p))
               in Inr \<lparr>S_Year = years,
                       S_Rental_Income = annual_rental_income_array,
                       S_Interest_Payment = annual_interest,
                       S_Principal_Payment = annual_principal,
                       S_Total_Expenses_Depreciation = total_annual_expenses,
                       S_Net_Rental_Loss = net_rental_loss,
                       S_Tax_Benefit = tax_benefit,
                       S_Cashflow_after_Negative_Gearing = net_profit_loss_after_tax,
                       S_Capital_Gains = py_slice capital_gains 0 (loan_term p),
                       S_Final_Net_Gain_Loss = final_net_gain_loss\<rparr>))"

section \<open>The recurrence of the schedule, without the clamp\<close>

text \<open>
  The balance after \<open>k\<close> periods when no period clamps: each period subtracts the payment
  less the interest on the running balance.
\<close>

fun raw_balance :: "real \<Rightarrow> real \<Rightarrow> real \<Rightarrow> nat \<Rightarrow> real" where
  "raw_balance rate payment_amount b 0 = b"
| "raw_balance rate payment_amount b (Suc k) =
     raw_balance rate payment_amount b k
       - (payment_amount - raw_balance rate payment_amount b k * rate)"

text \<open>
  The first period, among the first \<open>n\<close>, whose balance goes below zero: the number of
  periods to payoff, when the loan is paid off before the term ends.
\<close>

definition periods_to_payoff :: "real \<Rightarrow> real \<Rightarrow> real \<Rightarrow> nat \<Rightarrow> nat option" where
  "periods_to_payoff rate payment_amount b n =
     find (\<lambda>k. raw_balance rate payment_amount b k < 0) [1..<Suc n]"

section \<open>The amortization engine on doubles\<close>

text \<open>
  A second model of the engine, on IEEE 754 binary64 numbers with rounding to nearest, ties
  to even, as Python's \<^verbatim>\<open>float\<close> computes. A double is the real number it stands for.
  Subnormal numbers are covered; infinities and NaN are not: a sum, product or quotient
  beyond the largest double is outside this model (the power raises \<open>OverflowError\<close>
  there, as in Python).
\<close>

text \<open>The number of binary digits of a positive integer (Python's \<^verbatim>\<open>int.bit_length\<close>).\<close>

function bit_length :: "int \<Rightarrow> int" where
  "bit_length n = (if n \<le> 0 then 0 else bit_length (n div 2) + 1)"
  by auto
termination
  by (relation "measure nat") auto

text \<open>The exponent \<open>e\<close> with \<open>2 ^ e \<le> x < 2 ^ (e + 1)\<close>, for a positive \<open>x\<close>.\<close>

definition binary_exponent :: "real \<Rightarrow> int" where
  "binary_exponent x =
     (if 1 \<le> x then bit_length \<lfloor>x\<rfloor> - 1
      else - bit_length (\<lceil>1 / x\<rceil> - 1))"

text \<open>The power \<open>2 ^ e\<close> for an integer \<open>e\<close>, by repeated squaring.\<close>

function two_to :: "int \<Rightarrow> real" where
  "two_to e =
     (if e \<le> 0 then 1
      else let h = two_to (e div 2) in if even e then h * h else 2 * (h * h))"
  by auto
termination
  by (relation "measure nat") auto

definition pow2 :: "int \<Rightarrow> real" where
  "pow2 e = (if 0 \<le> e then two_to e else 1 / two_to (- e))"

definition round_half_even :: "real \<Rightarrow> int" where
  "round_half_even y =
     (let f = \<lfloor>y\<rfloor>; d = y - of_int f
      in if d < 1 / 2 then f else if 1 / 2 < d then f + 1 else if even f then f else f + 1)"

text \<open>
  The double nearest to a real: 53 significant bits, with the unit in the last place fixed
  at \<open>2 ^ - 1074\<close> below the normal range.
\<close>

definition to_double :: "real \<Rightarrow> real" where
  "to_double x =
     (if x = 0 then 0
      else
        let e = max (binary_exponent \<bar>x\<bar>) (- 1022);
            u = pow2 (e - 52)
        in of_int (round_half_even (x / u)) * u)"

text \<open>
  The conversion of a Python integer to a float, which raises \<open>OverflowError\<close> when the
  integer rounds beyond the largest double, that is, to \<open>2 ^ 1024\<close> or more.
\<close>

definition float_of_int :: "int \<Rightarrow> py_error + real" where
  "float_of_int n =
     (let x = to_double (of_int n)
      in if x \<noteq> 0 \<and> 1024 \<le> binary_exponent \<bar>x\<bar> then Inl OverflowError else Inr x)"

text \<open>
  \<^verbatim>\<open>x ** n\<close> for a float \<open>x\<close> and an integer \<open>n\<close>: the exponent is converted to a float, a
  zero exponent gives 1, a zero base with a negative exponent raises, and otherwise the
  power of the C library is returned, taken here as correctly rounded; a result beyond the
  largest double raises \<open>OverflowError\<close>.
\<close>

definition fl_pow :: "real \<Rightarrow> int \<Rightarrow> py_error + real" where
  "fl_pow x n =
     (case float_of_int n of
        Inl e \<Rightarrow> Inl e
      | Inr m \<Rightarrow>
          if m = 0 then Inr 1
          else if x = 0 \<and> m < 0 then Inl ZeroDivisionError
          else
            let z = to_double (if 0 \<le> m then x ^ nat \<lfloor>m\<rfloor> else 1 / x ^ nat (- \<lfloor>m\<rfloor>))
            in if z \<noteq> 0 \<and> 1024 \<le> binary_exponent \<bar>z\<bar> then Inl OverflowError
               else Inr z)"

text \<open>\<^verbatim>\<open>annual_rate / payments_per_year\<close>, a float divided by an integer.\<close>

definition fl_period_rate :: "real \<Rightarrow> int \<Rightarrow> py_error + real" where
  "fl_period_rate annual_rate payments_per_year =
     (case float_of_int payments_per_year of
        Inl e \<Rightarrow> Inl e
      | Inr d \<Rightarrow> if d = 0 then Inl ZeroDivisionError else Inr (to_double (annual_rate / d)))"

text \<open>
  \<^verbatim>\<open>calculate_mortgage_payment\<close> on doubles, in Python's order of evaluation: the rate, the
  numerator with its power, the divisor with its power, the division.
\<close>

definition fl_calculate_mortgage_payment ::
  "real \<Rightarrow> real \<Rightarrow> int \<Rightarrow> int \<Rightarrow> py_error + real" where
  "fl_calculate_mortgage_payment principal_amount annual_rate years payments_per_year =
     (case fl_period_rate annual_rate payments_per_year of
        Inl e \<Rightarrow> Inl e
      | Inr r \<Rightarrow>
          let n = years * payments_per_year
          in case fl_pow (to_double (1 + r)) n of
               Inl e \<Rightarrow> Inl e
             | Inr p \<Rightarrow>
                 let numerator = to_double (principal_amount * to_double (r * p));
                     divisor = to_double (p - 1)
                 in if divisor = 0 then Inl ZeroDivisionError
                    else Inr (to_double (numerator / divisor)))"



section \<open>A sample parameter set\<close>

text \<open>A small loan, one year at two payments a year, used to evaluate the functions.\<close>

definition example_params :: params where
  "example_params =
     \<lparr>property_value = 1000, loan_amount = 100, interest_rate = 1 / 10, loan_term = 1,
      payment_frequency = 2, annual_salary = 0, marginal_tax_rate = 1 / 2,
      weekly_rental_income = 1, annual_rental_increase = 1 / 10,
      annual_expense_increase = 1 / 10, property_appreciation = 1 / 10, council_rates = 1,
      water_rates = 2, land_tax = 3, strata_fees = 4, insurance = 5,
      property_manager_rate = 1 / 10, repairs_and_maintenance = 6, depreciation = 7\<rparr>"

section \<open>The schedule loop and the recurrence\<close>

lemma raw_balance_shift:
  "raw_balance r pay b (Suc k) = raw_balance r pay (b - (pay - b * r)) k"
  by (induction k) simp_all

lemma upt_0_Suc_map: "[0..<Suc k] = 0 # map Suc [0..<k]"
  by (simp add: upt_rec[of 0 "Suc k"] map_Suc_upt del: upt_Suc)

lemma map_upt_0_Suc: "map f [0..<Suc n] = f 0 # map (\<lambda>j. f (Suc j)) [0..<n]"
  by (simp add: upt_0_Suc_map comp_def del: upt_Suc)

lemma schedule_loop_no_break:
  assumes "\<And>j. 1 \<le> j \<Longrightarrow> j \<le> k \<Longrightarrow> 0 \<le> raw_balance r pay (balance s) j"
  shows "balance (schedule_loop k r pay s) = raw_balance r pay (balance s) k
       \<and> payment_list (schedule_loop k r pay s) = payment_list s @ replicate k pay
       \<and> interest_list (schedule_loop k r pay s)
           = interest_list s @ map (\<lambda>j. raw_balance r pay (balance s) j * r) [0..<k]
       \<and> principal_list (schedule_loop k r pay s)
           = principal_list s @ map (\<lambda>j. pay - raw_balance r pay (balance s) j * r) [0..<k]"
  using assms
proof (induction k arbitrary: s)
  case 0
  show ?case by simp
next
  case (Suc k)
  let ?b1 = "balance s - (pay - balance s * r)"
  let ?s1 = "s\<lparr>balance := ?b1,
                payment_list := payment_list s @ [pay],
                interest_list := interest_list s @ [balance s * r],
                principal_list := principal_list s @ [pay - balance s * r]\<rparr>"
  have b1: "0 \<le> ?b1" using Suc.prems[of 1] by simp
  have step: "schedule_loop (Suc k) r pay s = schedule_loop k r pay ?s1"
    using b1 by (simp add: Let_def)
  have ih_pre: "\<And>j. 1 \<le> j \<Longrightarrow> j \<le> k \<Longrightarrow> 0 \<le> raw_balance r pay (balance ?s1) j"
  proof -
    fix j :: nat assume "1 \<le> j" "j \<le> k"
    then have "0 \<le> raw_balance r pay (balance s) (Suc j)" using Suc.prems[of "Suc j"] by simp
    then show "0 \<le> raw_balance r pay (balance ?s1) j" by (simp only: raw_balance_shift) simp
  qed
  have shift: "\<And>j. raw_balance r pay ?b1 j = raw_balance r pay (balance s) (Suc j)"
    by (simp only: raw_balance_shift)
  note ih = Suc.IH[of ?s1, OF ih_pre]
  show ?case
    unfolding step using ih
    by (simp add: shift map_upt_0_Suc replicate_app_Cons_same del: upt_Suc raw_balance.simps(2))
qed

lemma schedule_loop_break:
  assumes "1 \<le> m" "m \<le> k" "raw_balance r pay (balance s) m < 0"
    and "\<And>j. 1 \<le> j \<Longrightarrow> j < m \<Longrightarrow> 0 \<le> raw_balance r pay (balance s) j"
  shows "balance (schedule_loop k r pay s) = 0
       \<and> payment_list (schedule_loop k r pay s)
           = payment_list s @ replicate (m - 1) pay
               @ [(pay - raw_balance r pay (balance s) (m - 1) * r + raw_balance r pay (balance s) m)
                    + raw_balance r pay (balance s) (m - 1) * r]
       \<and> interest_list (schedule_loop k r pay s)
           = interest_list s @ map (\<lambda>j. raw_balance r pay (balance s) j * r) [0..<m]
       \<and> principal_list (schedule_loop k r pay s)
           = principal_list s @ map (\<lambda>j. pay - raw_balance r pay (balance s) j * r) [0..<m - 1]
               @ [pay - raw_balance r pay (balance s) (m - 1) * r + raw_balance r pay (balance s) m]"
  using assms
proof (induction k arbitrary: s m)
  case 0
  then show ?case by simp
next
  case (Suc k)
  let ?b1 = "balance s - (pay - balance s * r)"
  show ?case
  proof (cases "m = 1")
    case True
    then have "?b1 < 0" using Suc.prems(3) by simp
    then show ?thesis using True by (simp add: Let_def)
  next
    case False
    then have m2: "2 \<le> m" using Suc.prems(1) by simp
    let ?s1 = "s\<lparr>balance := ?b1,
                payment_list := payment_list s @ [pay],
                interest_list := interest_list s @ [balance s * r],
                principal_list := principal_list s @ [pay - balance s * r]\<rparr>"
    have b1: "0 \<le> ?b1" using Suc.prems(4)[of 1] m2 by simp
    have step: "schedule_loop (Suc k) r pay s = schedule_loop k r pay ?s1"
      using b1 by (simp add: Let_def)
    have shift: "\<And>j. raw_balance r pay ?b1 j = raw_balance r pay (balance s) (Suc j)"
      by (simp only: raw_balance_shift)
    obtain m' where m': "m = Suc m'" "1 \<le> m'" using m2 by (cases m) auto
    have p1: "m' \<le> k" using Suc.prems(2) m' by simp
    have p2: "raw_balance r pay (balance ?s1) m' < 0"
      using Suc.prems(3) m' by (simp add: shift del: raw_balance.simps(2))
    have p3: "\<And>j. 1 \<le> j \<Longrightarrow> j < m' \<Longrightarrow> 0 \<le> raw_balance r pay (balance ?s1) j"
    proof -
      fix j :: nat assume "1 \<le> j" "j < m'"
      then have "0 \<le> raw_balance r pay (balance s) (Suc j)" using Suc.prems(4)[of "Suc j"] m' by simp
      then show "0 \<le> raw_balance r pay (balance ?s1) j" by (simp add: shift del: raw_balance.simps(2))
    qed
    note ih = Suc.IH[of m' ?s1, OF m'(2) p1 p2 p3]
    obtain m'' where m'': "m' = Suc m''" using m'(2) by (cases m') auto
    show ?thesis
      unfolding step using ih m'
      by (simp add: shift m'' map_upt_0_Suc replicate_app_Cons_same
            del: upt_Suc raw_balance.simps(2))
  qed
qed

lemma periods_to_payoff_None:
  "periods_to_payoff r pay b n = None \<longleftrightarrow> (\<forall>j. 1 \<le> j \<and> j \<le> n \<longrightarrow> 0 \<le> raw_balance r pay b j)"
  by (auto simp: periods_to_payoff_def find_None_iff not_less less_Suc_eq_le simp del: upt_Suc)

lemma periods_to_payoff_Some:
  "periods_to_payoff r pay b n = Some m \<longleftrightarrow>
     (1 \<le> m \<and> m \<le> n \<and> raw_balance r pay b m < 0
      \<and> (\<forall>j. 1 \<le> j \<and> j < m \<longrightarrow> 0 \<le> raw_balance r pay b j))"
proof
  assume "periods_to_payoff r pay b n = Some m"
  then obtain i where i: "i < length [1..<Suc n]" "raw_balance r pay b ([1..<Suc n] ! i) < 0"
     "m = [1..<Suc n] ! i" "\<forall>j<i. \<not> raw_balance r pay b ([1..<Suc n] ! j) < 0"
    unfolding periods_to_payoff_def find_Some_iff by blast
  have in': "i < n" using i(1) by (simp del: upt_Suc)
  have m: "m = Suc i" using i(3) in' by (simp del: upt_Suc)
  have "\<And>j. 1 \<le> j \<Longrightarrow> j < m \<Longrightarrow> 0 \<le> raw_balance r pay b j"
  proof -
    fix j :: nat assume j: "1 \<le> j" "j < m"
    then obtain j' where j': "j = Suc j'" by (cases j) auto
    have "j' < i" using j m j' by simp
    then have "\<not> raw_balance r pay b ([1..<Suc n] ! j') < 0" using i(4) by blast
    moreover have "[1..<Suc n] ! j' = j" using \<open>j' < i\<close> in' j' by (simp del: upt_Suc)
    ultimately show "0 \<le> raw_balance r pay b j" by simp
  qed
  moreover have "raw_balance r pay b m < 0" using i(2) i(3) by simp
  ultimately show "1 \<le> m \<and> m \<le> n \<and> raw_balance r pay b m < 0
      \<and> (\<forall>j. 1 \<le> j \<and> j < m \<longrightarrow> 0 \<le> raw_balance r pay b j)"
    using m in' by auto
next
  assume a: "1 \<le> m \<and> m \<le> n \<and> raw_balance r pay b m < 0
      \<and> (\<forall>j. 1 \<le> j \<and> j < m \<longrightarrow> 0 \<le> raw_balance r pay b j)"
  then obtain i where m: "m = Suc i" by (cases m) auto
  have in': "i < n" using a m by simp
  have "i < length [1..<Suc n] \<and> raw_balance r pay b ([1..<Suc n] ! i) < 0
     \<and> m = [1..<Suc n] ! i \<and> (\<forall>j<i. \<not> raw_balance r pay b ([1..<Suc n] ! j) < 0)"
    using a m in' by (auto simp: not_less simp del: upt_Suc raw_balance.simps(2))
  then show "periods_to_payoff r pay b n = Some m"
    unfolding periods_to_payoff_def find_Some_iff by blast
qed

section \<open>The schedule under the computed payment\<close>


lemma payment_value:
  fixes annual_rate :: real
  assumes "0 < annual_rate" "0 < years" "0 < payments_per_year"
  shows "1 < (1 + annual_rate / real_of_int payments_per_year) ^ nat (years * payments_per_year)"
    and "calculate_mortgage_payment principal_amount annual_rate years payments_per_year
          = Inr (principal_amount * (annual_rate / real_of_int payments_per_year
                    * (1 + annual_rate / real_of_int payments_per_year) ^ nat (years * payments_per_year))
                 / ((1 + annual_rate / real_of_int payments_per_year) ^ nat (years * payments_per_year) - 1))"
proof -
  have r: "0 < annual_rate / real_of_int payments_per_year" using assms by simp
  have n: "0 < nat (years * payments_per_year)" using assms by simp
  show gt: "1 < (1 + annual_rate / real_of_int payments_per_year) ^ nat (years * payments_per_year)"
    using r n by (intro one_less_power) simp_all
  have nn: "0 \<le> years * payments_per_year" using assms by simp
  show "calculate_mortgage_payment principal_amount annual_rate years payments_per_year
          = Inr (principal_amount * (annual_rate / real_of_int payments_per_year
                    * (1 + annual_rate / real_of_int payments_per_year) ^ nat (years * payments_per_year))
                 / ((1 + annual_rate / real_of_int payments_per_year) ^ nat (years * payments_per_year) - 1))"
    using assms(3) gt nn by (simp add: calculate_mortgage_payment_def py_pow_def Let_def)
qed





section \<open>Aggregation into years\<close>

lemma schedule_loop_lengths:
  "\<exists>d\<le>k. length (payment_list (schedule_loop k r pay s)) = length (payment_list s) + d
         \<and> length (interest_list (schedule_loop k r pay s)) = length (interest_list s) + d
         \<and> length (principal_list (schedule_loop k r pay s)) = length (principal_list s) + d"
proof (induction k arbitrary: s)
  case 0
  show ?case by simp
next
  case (Suc k)
  let ?s1 = "s\<lparr>balance := balance s - (pay - balance s * r),
                payment_list := payment_list s @ [pay],
                interest_list := interest_list s @ [balance s * r],
                principal_list := principal_list s @ [pay - balance s * r]\<rparr>"
  show ?case
  proof (cases "balance s - (pay - balance s * r) < 0")
    case True
    then show ?thesis by (intro exI[of _ 1]) (simp add: Let_def)
  next
    case False
    then have step: "schedule_loop (Suc k) r pay s = schedule_loop k r pay ?s1"
      by (simp add: Let_def)
    obtain d where d: "d \<le> k"
      "length (payment_list (schedule_loop k r pay ?s1)) = length (payment_list ?s1) + d"
      "length (interest_list (schedule_loop k r pay ?s1)) = length (interest_list ?s1) + d"
      "length (principal_list (schedule_loop k r pay ?s1)) = length (principal_list ?s1) + d"
      using Suc.IH[of ?s1] by blast
    show ?thesis unfolding step using d by (intro exI[of _ "Suc d"]) simp
  qed
qed

lemma generate_lengths:
  assumes "generate_amortization_schedule P rate years pf pay = (payments, interests, principals)"
  shows "length interests = length payments" "length principals = length payments"
    "length payments \<le> nat (years * pf)"
  using assms schedule_loop_lengths[of "nat (years * pf)" "rate / real_of_int pf" pay "init_state P"]
  by (auto simp: generate_amortization_schedule_def run_schedule_def Let_def init_state_def)

lemma annual_loop_upt:
  assumes "length ai = h" "length ap = h"
  shows "annual_loop I Pr pf ny rem [a..<h] (ai, ap) =
     (map (\<lambda>i. if a \<le> i \<and> (int i < ny \<or> int i = ny \<and> 0 < rem)
                then sum_list (py_slice I (int i * pf)
                       (if int i < ny then (int i + 1) * pf else int i * pf + rem))
                else ai ! i) [0..<h],
      map (\<lambda>i. if a \<le> i \<and> (int i < ny \<or> int i = ny \<and> 0 < rem)
                then sum_list (py_slice Pr (int i * pf)
                       (if int i < ny then (int i + 1) * pf else int i * pf + rem))
                else ap ! i) [0..<h])"
  using assms
proof (induction "h - a" arbitrary: a ai ap)
  case 0
  then have e: "[a..<h] = []" by simp
  have keep: "map (\<lambda>i. ai ! i) [0..<h] = ai" "map (\<lambda>i. ap ! i) [0..<h] = ap"
    using map_nth[of ai] map_nth[of ap] 0 by simp_all
  have nc: "\<And>i. i < h \<Longrightarrow> \<not> a \<le> i" using 0 by simp
  have "map (\<lambda>i. if a \<le> i \<and> (int i < ny \<or> int i = ny \<and> 0 < rem)
                then sum_list (py_slice I (int i * pf)
                       (if int i < ny then (int i + 1) * pf else int i * pf + rem))
                else ai ! i) [0..<h] = map (\<lambda>i. ai ! i) [0..<h]"
    using nc by (intro map_cong) auto
  moreover have "map (\<lambda>i. if a \<le> i \<and> (int i < ny \<or> int i = ny \<and> 0 < rem)
                then sum_list (py_slice Pr (int i * pf)
                       (if int i < ny then (int i + 1) * pf else int i * pf + rem))
                else ap ! i) [0..<h] = map (\<lambda>i. ap ! i) [0..<h]"
    using nc by (intro map_cong) auto
  ultimately show ?case unfolding e keep by simp
next
  case (Suc d)
  then have ah: "a < h" by simp
  then have e: "[a..<h] = a # [Suc a..<h]" by (simp add: upt_conv_Cons)
  have d: "d = h - Suc a" using Suc.hyps(2) by simp
  show ?case
  proof (cases "int a < ny \<or> int a = ny \<and> 0 < rem")
    case True
    define vi where "vi = sum_list (py_slice I (int a * pf)
                       (if int a < ny then (int a + 1) * pf else int a * pf + rem))"
    define vp where "vp = sum_list (py_slice Pr (int a * pf)
                       (if int a < ny then (int a + 1) * pf else int a * pf + rem))"
    have step: "annual_loop I Pr pf ny rem (a # [Suc a..<h]) (ai, ap)
        = annual_loop I Pr pf ny rem [Suc a..<h] (ai[a := vi], ap[a := vp])"
      using True by (auto simp: Let_def vi_def vp_def)
    have l: "length (ai[a := vi]) = h" "length (ap[a := vp]) = h" using Suc.prems by simp_all
    note ih = Suc.hyps(1)[OF d l]
    show ?thesis
      unfolding e step ih
      using True ah Suc.prems
      by (auto simp: vi_def vp_def nth_list_update intro!: map_cong)
  next
    case False
    have step: "annual_loop I Pr pf ny rem (a # [Suc a..<h]) (ai, ap) = (ai, ap)"
      using False by auto
    have nc: "\<And>i. a \<le> i \<Longrightarrow> \<not> (int i < ny \<or> int i = ny \<and> 0 < rem)"
      using False by auto
    have keep: "map (\<lambda>i. ai ! i) [0..<h] = ai" "map (\<lambda>i. ap ! i) [0..<h] = ap"
      using map_nth[of ai] map_nth[of ap] Suc.prems by simp_all
    have "map (\<lambda>i. if a \<le> i \<and> (int i < ny \<or> int i = ny \<and> 0 < rem)
                then sum_list (py_slice I (int i * pf)
                       (if int i < ny then (int i + 1) * pf else int i * pf + rem))
                else ai ! i) [0..<h] = map (\<lambda>i. ai ! i) [0..<h]"
      using nc by (intro map_cong) auto
    moreover have "map (\<lambda>i. if a \<le> i \<and> (int i < ny \<or> int i = ny \<and> 0 < rem)
                then sum_list (py_slice Pr (int i * pf)
                       (if int i < ny then (int i + 1) * pf else int i * pf + rem))
                else ap ! i) [0..<h] = map (\<lambda>i. ap ! i) [0..<h]"
      using nc by (intro map_cong) auto
    ultimately show ?thesis unfolding e step keep by simp
  qed
qed

section \<open>Arrays as maps over the year indices\<close>

lemma map2_same_list: "map2 f (map g xs) (map k xs) = map (\<lambda>x. f (g x) (k x)) xs"
  by (induction xs) simp_all

lemma np_add_map: "np_add (map f xs) (map g xs) = map (\<lambda>x. f x + g x) xs"
  by (simp add: np_add_def map2_same_list)

lemma np_add_scalar_map: "np_add_scalar (map f xs) c = map (\<lambda>x. f x + c) xs"
  by (simp add: np_add_scalar_def)

lemma np_scale_map: "np_scale c (map f xs) = map (\<lambda>x. c * f x) xs"
  by (simp add: np_scale_def)

lemma upto_from_1: "[1..int n] = map (\<lambda>i. int i + 1) [0..<n]"
proof (induction n)
  case 0
  show ?case by simp
next
  case (Suc n)
  have "[1..int (Suc n)] = [1..int n] @ [int n + 1]"
    using upto_rec2[of 1 "int n + 1"] by (simp add: add.commute)
  then show ?case using Suc by simp
qed

lemma upto_from_0: "[0..int n] = map int [0..<Suc n]"
proof (induction n)
  case 0
  show ?case by (simp add: upto_rec1)
next
  case (Suc n)
  have "[0..int (Suc n)] = [0..int n] @ [int n + 1]"
    using upto_rec2[of 0 "int n + 1"] by (simp add: add.commute)
  then show ?case using Suc by simp
qed

lemma np_power_years: "np_power b [1..int n] = map (\<lambda>i. b ^ Suc i) [0..<n]"
  by (simp add: np_power_def upto_from_1 comp_def nat_add_distrib del: power_Suc)

lemma np_power_arange: "np_power b [0..int n] = map (\<lambda>i. b ^ i) [0..<Suc n]"
  by (simp add: np_power_def upto_from_0 comp_def del: upt_Suc)

lemma np_diff_map: "np_diff (map f [0..<Suc n]) = map (\<lambda>i. f (Suc i) - f i) [0..<n]"
proof -
  have "tl (map f [0..<Suc n]) = map (\<lambda>i. f (Suc i)) [0..<n]"
    by (simp add: map_upt_0_Suc del: upt_Suc)
  moreover have "map2 (-) (map (\<lambda>i. f (Suc i)) [0..<n]) (map f [0..<Suc n])
      = map (\<lambda>i. f (Suc i) - f i) [0..<n]"
    by (rule nth_equalityI) (simp_all del: upt_Suc add: nth_append)
  ultimately show ?thesis by (simp add: np_diff_def del: upt_Suc)
qed

lemma py_slice_whole: "length xs = n \<Longrightarrow> py_slice xs 0 (int n) = xs"
  by (simp add: py_slice_def py_clamp_def Let_def)

section \<open>The columns of the generalized projector\<close>

lemma map_over_indices: "length xs = n \<Longrightarrow> map f xs = map (\<lambda>i. f (xs ! i)) [0..<n]"
  by (rule nth_equalityI) simp_all

lemma np_add_indices:
  "length xs = n \<Longrightarrow> length ys = n \<Longrightarrow> np_add xs ys = map (\<lambda>i. xs ! i + ys ! i) [0..<n]"
  unfolding np_add_def by (rule nth_equalityI) simp_all

lemma np_sub_indices:
  "length xs = n \<Longrightarrow> length ys = n \<Longrightarrow> np_sub xs ys = map (\<lambda>i. xs ! i - ys ! i) [0..<n]"
  unfolding np_sub_def by (rule nth_equalityI) simp_all

lemma np_scale_indices:
  "length xs = n \<Longrightarrow> np_scale c xs = map (\<lambda>i. c * xs ! i) [0..<n]"
  unfolding np_scale_def by (rule map_over_indices)

lemma annual_loop_length:
  assumes "length ai = h" "length ap = h"
  shows "length (fst (annual_loop I Pr pf ny rem [0..<h] (ai, ap))) = h"
    and "length (snd (annual_loop I Pr pf ny rem [0..<h] (ai, ap))) = h"
  unfolding annual_loop_upt[OF assms] by simp_all

lemma outlook_columns:
  assumes "calculate_investment_outlook p h = Inr t"
  shows "\<exists>pay payments interests principals.
      calculate_mortgage_payment (loan_amount p) (interest_rate p) (loan_term p)
        (payment_frequency p) = Inr pay
    \<and> generate_amortization_schedule (loan_amount p) (interest_rate p) (loan_term p)
        (payment_frequency p) pay = (payments, interests, principals)
    \<and> 0 \<le> h
    \<and> (Interest_Payment t, Principal_Payment t)
        = annual_loop interests principals (payment_frequency p)
            (int (length payments) div payment_frequency p)
            (int (length payments) mod payment_frequency p)
            [0..<nat h] (replicate (nat h) 0, replicate (nat h) 0)
    \<and> Year t = [1..h]
    \<and> Rental_Income t
        = map (\<lambda>i. weekly_rental_income p * 52 * (1 + annual_rental_increase p) ^ i) [0..<nat h]
    \<and> Other_Expenses t
        = map (\<lambda>i. council_rates p * (1 + annual_expense_increase p) ^ Suc i
                  + water_rates p * (1 + annual_expense_increase p) ^ Suc i
                  + land_tax p
                  + strata_fees p * (1 + annual_expense_increase p) ^ Suc i
                  + insurance p * (1 + annual_expense_increase p) ^ Suc i
                  + property_manager_rate p * Rental_Income t ! i
                  + repairs_and_maintenance p) [0..<nat h]
    \<and> Total_Cash_Outflows t
        = map (\<lambda>i. Interest_Payment t ! i + Principal_Payment t ! i + Other_Expenses t ! i)
            [0..<nat h]
    \<and> Net_Cash_Flow_Before_Tax t
        = map (\<lambda>i. Rental_Income t ! i - Total_Cash_Outflows t ! i) [0..<nat h]
    \<and> Taxable_Income t
        = map (\<lambda>i. Rental_Income t ! i
                    - (Interest_Payment t ! i + Other_Expenses t ! i + depreciation p)) [0..<nat h]
    \<and> Tax_Benefit t = map (\<lambda>i. - Taxable_Income t ! i * marginal_tax_rate p) [0..<nat h]
    \<and> Net_Cash_Flow_After_Tax t
        = map (\<lambda>i. Net_Cash_Flow_Before_Tax t ! i + Tax_Benefit t ! i) [0..<nat h]
    \<and> Capital_Gains t
        = map (\<lambda>i. property_value p * (1 + property_appreciation p) ^ Suc i
                    - property_value p * (1 + property_appreciation p) ^ i) [0..<nat h]
    \<and> Final_Net_Gain_Loss t
        = map (\<lambda>i. Net_Cash_Flow_After_Tax t ! i + Capital_Gains t ! i) [0..<nat h]"
proof -
  obtain pay where pay: "calculate_mortgage_payment (loan_amount p) (interest_rate p) (loan_term p)
        (payment_frequency p) = Inr pay"
    using assms by (auto simp: calculate_investment_outlook_def split: sum.splits)
  obtain payments interests principals where g:
    "generate_amortization_schedule (loan_amount p) (interest_rate p) (loan_term p)
        (payment_frequency p) pay = (payments, interests, principals)"
    by (cases "generate_amortization_schedule (loan_amount p) (interest_rate p) (loan_term p)
        (payment_frequency p) pay") auto
  have h0: "0 \<le> h"
    using assms by (auto simp: calculate_investment_outlook_def pay g Let_def split: if_splits)
  define n where "n = nat h"
  have hn: "h = int n" using h0 by (simp add: n_def)
  have nh: "(h < 0) = False" using h0 by simp
  define annual where "annual = annual_loop interests principals (payment_frequency p)
            (int (length payments) div payment_frequency p)
            (int (length payments) mod payment_frequency p)
            [0..<n] (replicate n 0, replicate n 0)"
  define rental where "rental = map (\<lambda>i. weekly_rental_income p * 52 * (1 + annual_rental_increase p) ^ i) [0..<n]"
  define other where "other = map (\<lambda>i. council_rates p * (1 + annual_expense_increase p) ^ Suc i
                  + water_rates p * (1 + annual_expense_increase p) ^ Suc i
                  + land_tax p
                  + strata_fees p * (1 + annual_expense_increase p) ^ Suc i
                  + insurance p * (1 + annual_expense_increase p) ^ Suc i
                  + property_manager_rate p * rental ! i
                  + repairs_and_maintenance p) [0..<n]"
  define outflows where "outflows = np_add (np_add (fst annual) (snd annual)) other"
  define before where "before = np_sub rental outflows"
  define taxable where "taxable = np_sub rental (np_add_scalar (np_add (fst annual) other) (depreciation p))"
  define benefit where "benefit = map (\<lambda>x. (- x) * marginal_tax_rate p) taxable"
  define after where "after = np_add before benefit"
  define gains where "gains = map (\<lambda>i. property_value p * (1 + property_appreciation p) ^ Suc i
                    - property_value p * (1 + property_appreciation p) ^ i) [0..<n]"
  have la: "length (fst annual) = n" "length (snd annual) = n"
    unfolding annual_def by (simp_all add: annual_loop_length)
  have lr: "length rental = n" by (simp add: rental_def)
  have lo: "length other = n" by (simp add: other_def)
  have other_eq: "np_add_scalar
                            (np_add
                              (np_add
                                (np_add
                                  (np_add_scalar (np_add (np_scale (council_rates p) (np_power (1 + annual_expense_increase p) [1..int n]))
                                       (np_scale (water_rates p) (np_power (1 + annual_expense_increase p) [1..int n])))
                                     (land_tax p))
                                  (np_scale (strata_fees p) (np_power (1 + annual_expense_increase p) [1..int n])))
                                (np_scale (insurance p) (np_power (1 + annual_expense_increase p) [1..int n])))
                              (np_scale (property_manager_rate p) rental))
                            (repairs_and_maintenance p) = other"
    unfolding other_def np_power_years np_scale_map np_scale_indices[OF lr]
      np_add_map np_add_scalar_map
    by (rule refl)
  have gains_eq: "py_slice (np_diff (np_scale (property_value p)
           (np_power (1 + property_appreciation p) [0..int n]))) 0 (int n) = gains"
    unfolding np_power_arange np_scale_map np_diff_map gains_def
    by (rule py_slice_whole) simp
  have t: "t = \<lparr>Year = [1..h], Rental_Income = rental, Interest_Payment = fst annual,
                  Principal_Payment = snd annual, Other_Expenses = other,
                  Total_Cash_Outflows = outflows, Net_Cash_Flow_Before_Tax = before,
                  Taxable_Income = taxable, Tax_Benefit = benefit,
                  Net_Cash_Flow_After_Tax = after, Capital_Gains = gains,
                  Final_Net_Gain_Loss = np_add after gains\<rparr>"
    using assms[unfolded calculate_investment_outlook_def pay sum.case g prod.case Let_def nh
        if_False, unfolded hn nat_int, folded annual_def rental_def, unfolded other_eq gains_eq,
        folded outflows_def, folded taxable_def, folded before_def benefit_def,
        folded after_def]
    by (simp add: hn)
  have lout: "length outflows = n" using la lo by (simp add: outflows_def np_add_def)
  have lbef: "length before = n" using lr lout by (simp add: before_def np_sub_def)
  have ltax: "length taxable = n"
    using lr la lo by (simp add: taxable_def np_sub_def np_add_def np_add_scalar_def)
  have lben: "length benefit = n" using ltax by (simp add: benefit_def)
  have laft: "length after = n" using lbef lben by (simp add: after_def np_add_def)
  have lg: "length gains = n" by (simp add: gains_def)
  have c1: "outflows = map (\<lambda>i. fst annual ! i + snd annual ! i + other ! i) [0..<n]"
    unfolding outflows_def np_add_indices[OF la(1) la(2)]
    by (rule nth_equalityI) (simp_all add: np_add_def lo)
  have c2: "before = map (\<lambda>i. rental ! i - outflows ! i) [0..<n]"
    unfolding before_def by (rule np_sub_indices[OF lr lout])
  have c3: "taxable = map (\<lambda>i. rental ! i - (fst annual ! i + other ! i + depreciation p)) [0..<n]"
    unfolding taxable_def np_add_indices[OF la(1) lo] np_add_scalar_map
    by (rule nth_equalityI) (simp_all add: np_sub_def lr)
  have c4: "benefit = map (\<lambda>i. - taxable ! i * marginal_tax_rate p) [0..<n]"
    unfolding benefit_def by (rule map_over_indices[OF ltax])
  have c5: "after = map (\<lambda>i. before ! i + benefit ! i) [0..<n]"
    unfolding after_def by (rule np_add_indices[OF lbef lben])
  have c6: "np_add after gains = map (\<lambda>i. after ! i + gains ! i) [0..<n]"
    by (rule np_add_indices[OF laft lg])
  have cols: "(Interest_Payment t, Principal_Payment t) = annual" "Year t = [1..h]"
    "Rental_Income t = rental" "Other_Expenses t = other" "Total_Cash_Outflows t = outflows"
    "Net_Cash_Flow_Before_Tax t = before" "Taxable_Income t = taxable" "Tax_Benefit t = benefit"
    "Net_Cash_Flow_After_Tax t = after" "Capital_Gains t = gains"
    "Final_Net_Gain_Loss t = np_add after gains"
    "Interest_Payment t = fst annual" "Principal_Payment t = snd annual"
    unfolding t by simp_all
  show ?thesis
    apply (rule exI[of _ pay], rule exI[of _ payments], rule exI[of _ interests],
           rule exI[of _ principals])
    unfolding cols n_def[symmetric]
    using pay g h0 c1 c2 c3 c4 c5 c6
    by (simp add: annual_def rental_def other_def gains_def)
qed

section \<open>When the projector returns\<close>

lemma outlook_returns:
  assumes "calculate_mortgage_payment (loan_amount p) (interest_rate p) (loan_term p)
        (payment_frequency p) = Inr pay"
  shows "0 \<le> h \<Longrightarrow> \<exists>t. calculate_investment_outlook p h = Inr t \<and> length (Year t) = nat h"
    and "h < 0 \<Longrightarrow> calculate_investment_outlook p h = Inl ValueError"
proof -
  obtain payments interests principals where g:
    "generate_amortization_schedule (loan_amount p) (interest_rate p) (loan_term p)
        (payment_frequency p) pay = (payments, interests, principals)"
    by (cases "generate_amortization_schedule (loan_amount p) (interest_rate p) (loan_term p)
        (payment_frequency p) pay") auto
  show "0 \<le> h \<Longrightarrow> \<exists>t. calculate_investment_outlook p h = Inr t \<and> length (Year t) = nat h"
    unfolding calculate_investment_outlook_def assms sum.case g prod.case Let_def
    by simp
  show "h < 0 \<Longrightarrow> calculate_investment_outlook p h = Inl ValueError"
    unfolding calculate_investment_outlook_def assms sum.case g prod.case Let_def
    by simp
qed

lemma outlook_raises:
  assumes "calculate_mortgage_payment (loan_amount p) (interest_rate p) (loan_term p)
        (payment_frequency p) = Inl e"
  shows "calculate_investment_outlook p h = Inl e"
  unfolding calculate_investment_outlook_def assms by simp

lemma example_payment:
  "calculate_mortgage_payment (loan_amount example_params) (interest_rate example_params)
     (loan_term example_params) (payment_frequency example_params) = Inr (2205 / 41)"
  by code_simp

section \<open>Years after the end of the schedule\<close>

lemma payment_Inr_frequency:
  "calculate_mortgage_payment P rate years pf = Inr pay \<Longrightarrow> pf \<noteq> 0"
  by (auto simp: calculate_mortgage_payment_def)

lemma annual_columns_nth:
  assumes "(ai, ap) = annual_loop I Pr pf ny rem [0..<n] (replicate n 0, replicate n 0)"
    and "i < n"
  shows "ai ! i = (if int i < ny \<or> int i = ny \<and> 0 < rem
                   then sum_list (py_slice I (int i * pf)
                          (if int i < ny then (int i + 1) * pf else int i * pf + rem))
                   else 0)"
    and "ap ! i = (if int i < ny \<or> int i = ny \<and> 0 < rem
                   then sum_list (py_slice Pr (int i * pf)
                          (if int i < ny then (int i + 1) * pf else int i * pf + rem))
                   else 0)"
  using assms unfolding annual_loop_upt[of "replicate n 0" n "replicate n 0", OF length_replicate length_replicate]
  by simp_all

lemma no_period_after_term:
  fixes pf years :: int and L :: nat
  assumes "L \<le> nat (years * pf)" "pf \<noteq> 0" "years \<le> int i"
  shows "\<not> (int i < int L div pf \<or> int i = int L div pf \<and> 0 < int L mod pf)"
proof (cases "0 < pf")
  case True
  show ?thesis
  proof (cases "0 \<le> years")
    case True
    have "0 \<le> years * pf" using True \<open>0 < pf\<close> by simp
    then have Lb: "int L \<le> years * pf" using assms(1) by (simp add: le_nat_iff)
    have "int L div pf \<le> (years * pf) div pf" using Lb \<open>0 < pf\<close> by (intro zdiv_mono1) simp_all
    then have d: "int L div pf \<le> years" using \<open>0 < pf\<close> by simp
    have "\<not> (int i = int L div pf \<and> 0 < int L mod pf)"
    proof
      assume a: "int i = int L div pf \<and> 0 < int L mod pf"
      then have "int L div pf = years" using d assms(3) by simp
      then have "int L = years * pf + int L mod pf"
        using div_mult_mod_eq[of "int L" pf] by simp
      then show False using a Lb by simp
    qed
    then show ?thesis using d assms(3) by auto
  next
    case False
    then have "years * pf < 0" using \<open>0 < pf\<close> by (simp add: mult_neg_pos)
    then have "L = 0" using assms(1) by simp
    then show ?thesis by simp
  qed
next
  case False
  then have neg: "pf < 0" using assms(2) by simp
  have "int L div pf \<le> 0" using neg by (intro div_nonneg_neg_le0) simp
  moreover have "int L mod pf \<le> 0" using neg by (simp add: neg_mod_sign)
  ultimately show ?thesis by auto
qed

lemma remainder_slice:
  fixes pf :: int
  assumes "0 < int (length xs) mod pf" "pf \<noteq> 0"
  shows "py_slice xs (int (length xs) div pf * pf)
           (int (length xs) div pf * pf + int (length xs) mod pf)
           = drop (nat (int (length xs) - int (length xs) mod pf)) xs"
proof -
  define L where "L = length xs"
  have pos: "0 < pf"
  proof (rule ccontr)
    assume "\<not> 0 < pf"
    then have "pf < 0" using assms(2) by simp
    then have "int (length xs) mod pf \<le> 0" by (simp add: neg_mod_sign)
    then show False using assms(1) by simp
  qed
  have e: "int L div pf * pf + int L mod pf = int L" by simp
  have s: "int L div pf * pf = int L - int L mod pf" using e by linarith
  have "0 \<le> int L div pf" using pos by (simp add: pos_imp_zdiv_nonneg_iff)
  then have "0 \<le> int L div pf * pf" using pos by simp
  then have lo: "0 \<le> int L - int L mod pf" using s by simp
  have le: "int L - int L mod pf \<le> int L" using assms(1) by (simp add: L_def)
  have c1: "py_clamp L (int L - int L mod pf) = nat (int L - int L mod pf)"
    using lo le by (simp add: py_clamp_def)
  have c2: "py_clamp L (int L) = L" by (simp add: py_clamp_def)
  have "py_slice xs (int L - int L mod pf) (int L - int L mod pf + int L mod pf)
           = drop (nat (int L - int L mod pf)) xs"
    using c1 c2 by (simp add: py_slice_def Let_def L_def[symmetric])
  then show ?thesis unfolding L_def[symmetric] s .
qed

lemma early_payoff_payment:
  "calculate_mortgage_payment (loan_amount (example_params\<lparr>loan_amount := - 100\<rparr>))
     (interest_rate (example_params\<lparr>loan_amount := - 100\<rparr>))
     (loan_term (example_params\<lparr>loan_amount := - 100\<rparr>))
     (payment_frequency (example_params\<lparr>loan_amount := - 100\<rparr>)) = Inr (- (2205 / 41))"
  by code_simp

lemma early_payoff_schedule:
  "generate_amortization_schedule (loan_amount (example_params\<lparr>loan_amount := - 100\<rparr>))
     (interest_rate (example_params\<lparr>loan_amount := - 100\<rparr>))
     (loan_term (example_params\<lparr>loan_amount := - 100\<rparr>))
     (payment_frequency (example_params\<lparr>loan_amount := - 100\<rparr>)) (- (2205 / 41))
     = ([- 105], [- 5], [- 100])"
  by code_simp

section \<open>Zero divisors of the payment formula\<close>

lemma payment_zero_divisor:
  assumes "payments_per_year = 0 \<or> years = 0 \<or> annual_rate = 0"
  shows "calculate_mortgage_payment principal_amount annual_rate years payments_per_year
           = Inl ZeroDivisionError"
proof (cases "payments_per_year = 0")
  case True
  then show ?thesis by (simp add: calculate_mortgage_payment_def)
next
  case False
  show ?thesis
  proof (cases "years = 0")
    case True
    then show ?thesis using False by (simp add: calculate_mortgage_payment_def py_pow_def)
  next
    case y: False
    then have "annual_rate = 0" using assms False by simp
    then show ?thesis using False
      by (simp add: calculate_mortgage_payment_def py_pow_def Let_def)
  qed
qed

section \<open>The columns of the simple projector\<close>

lemma simple_columns:
  assumes "calculate_investment_outlook_simple p = Inr s" "0 \<le> loan_term p"
  shows "\<exists>pay payments interests principals.
      calculate_mortgage_payment (loan_amount p) (interest_rate p) (loan_term p)
        (payment_frequency p) = Inr pay
    \<and> generate_amortization_schedule (loan_amount p) (interest_rate p) (loan_term p)
        (payment_frequency p) pay = (payments, interests, principals)
    \<and> S_Year s = [1..loan_term p]
    \<and> S_Rental_Income s
        = map (\<lambda>i. weekly_rental_income p * 52 * (1 + annual_rental_increase p) ^ i)
            [0..<nat (loan_term p)]
    \<and> S_Interest_Payment s
        = map (\<lambda>i. sum_list (py_slice interests (int i * payment_frequency p)
                                ((int i + 1) * payment_frequency p))) [0..<nat (loan_term p)]
    \<and> S_Principal_Payment s
        = map (\<lambda>i. sum_list (py_slice principals (int i * payment_frequency p)
                                ((int i + 1) * payment_frequency p))) [0..<nat (loan_term p)]
    \<and> S_Total_Expenses_Depreciation s
        = map (\<lambda>i. S_Interest_Payment s ! i
                  + council_rates p * (1 + annual_expense_increase p) ^ Suc i
                  + water_rates p * (1 + annual_expense_increase p) ^ Suc i
                  + land_tax p
                  + strata_fees p * (1 + annual_expense_increase p) ^ Suc i
                  + insurance p * (1 + annual_expense_increase p) ^ Suc i
                  + property_manager_rate p * S_Rental_Income s ! i
                  + repairs_and_maintenance p
                  + depreciation p) [0..<nat (loan_term p)]
    \<and> S_Net_Rental_Loss s
        = map (\<lambda>i. S_Rental_Income s ! i - S_Total_Expenses_Depreciation s ! i)
            [0..<nat (loan_term p)]
    \<and> S_Tax_Benefit s
        = map (\<lambda>i. - S_Net_Rental_Loss s ! i * marginal_tax_rate p) [0..<nat (loan_term p)]
    \<and> S_Cashflow_after_Negative_Gearing s
        = map (\<lambda>i. S_Net_Rental_Loss s ! i + S_Tax_Benefit s ! i) [0..<nat (loan_term p)]
    \<and> S_Capital_Gains s
        = map (\<lambda>i. property_value p * (1 + property_appreciation p) ^ Suc i
                    - property_value p * (1 + property_appreciation p) ^ i)
            [0..<nat (loan_term p)]
    \<and> S_Final_Net_Gain_Loss s
        = map (\<lambda>i. S_Cashflow_after_Negative_Gearing s ! i + S_Capital_Gains s ! i)
            [0..<nat (loan_term p)]"
proof -
  obtain pay where pay: "calculate_mortgage_payment (loan_amount p) (interest_rate p) (loan_term p)
        (payment_frequency p) = Inr pay"
    using assms(1) by (auto simp: calculate_investment_outlook_simple_def split: sum.splits)
  obtain payments interests principals where g:
    "generate_amortization_schedule (loan_amount p) (interest_rate p) (loan_term p)
        (payment_frequency p) pay = (payments, interests, principals)"
    by (cases "generate_amortization_schedule (loan_amount p) (interest_rate p) (loan_term p)
        (payment_frequency p) pay") auto
  define n where "n = nat (loan_term p)"
  have hn: "loan_term p = int n" using assms(2) by (simp add: n_def)
  define interest where "interest = map (\<lambda>i. sum_list (py_slice interests (int i * payment_frequency p)
                                ((int i + 1) * payment_frequency p))) [0..<n]"
  define princ where "princ = map (\<lambda>i. sum_list (py_slice principals (int i * payment_frequency p)
                                ((int i + 1) * payment_frequency p))) [0..<n]"
  define rental where "rental = map (\<lambda>i. weekly_rental_income p * 52 * (1 + annual_rental_increase p) ^ i) [0..<n]"
  define total where "total = map (\<lambda>i. sum_list (py_slice interests (int i * payment_frequency p)
                                ((int i + 1) * payment_frequency p))
                  + council_rates p * (1 + annual_expense_increase p) ^ Suc i
                  + water_rates p * (1 + annual_expense_increase p) ^ Suc i
                  + land_tax p
                  + strata_fees p * (1 + annual_expense_increase p) ^ Suc i
                  + insurance p * (1 + annual_expense_increase p) ^ Suc i
                  + property_manager_rate p
                      * (weekly_rental_income p * 52 * (1 + annual_rental_increase p) ^ i)
                  + repairs_and_maintenance p
                  + depreciation p) [0..<n]"
  define loss where "loss = np_sub rental total"
  define benefit where "benefit = map (\<lambda>x. (- x) * marginal_tax_rate p) loss"
  define cash where "cash = np_add loss benefit"
  define gains where "gains = map (\<lambda>i. property_value p * (1 + property_appreciation p) ^ Suc i
                    - property_value p * (1 + property_appreciation p) ^ i) [0..<n]"
  have li: "length interest = n" by (simp add: interest_def)
  have lr: "length rental = n" by (simp add: rental_def)
  have lt: "length total = n" by (simp add: total_def)
  have total_eq: "np_add_scalar
                       (np_add_scalar
                         (np_add
                           (np_add
                             (np_add
                               (np_add_scalar
                                 (np_add
                                   (np_add interest
                                      (np_scale (council_rates p)
                                         (np_power (1 + annual_expense_increase p) [1..int n])))
                                   (np_scale (water_rates p)
                                      (np_power (1 + annual_expense_increase p) [1..int n])))
                                 (land_tax p))
                               (np_scale (strata_fees p)
                                  (np_power (1 + annual_expense_increase p) [1..int n])))
                             (np_scale (insurance p)
                                (np_power (1 + annual_expense_increase p) [1..int n])))
                           (np_scale (property_manager_rate p) rental))
                         (repairs_and_maintenance p))
                       (depreciation p) = total"
    unfolding total_def interest_def rental_def np_power_years np_scale_map
      np_add_map np_add_scalar_map
    by (rule refl)
  have gains_eq: "py_slice (np_diff (np_scale (property_value p)
           (np_power (1 + property_appreciation p) [0..int n]))) 0 (int n) = gains"
    unfolding np_power_arange np_scale_map np_diff_map gains_def
    by (rule py_slice_whole) simp
  have s: "s = \<lparr>S_Year = [1..loan_term p], S_Rental_Income = rental,
                  S_Interest_Payment = interest, S_Principal_Payment = princ,
                  S_Total_Expenses_Depreciation = total, S_Net_Rental_Loss = loss,
                  S_Tax_Benefit = benefit, S_Cashflow_after_Negative_Gearing = cash,
                  S_Capital_Gains = gains, S_Final_Net_Gain_Loss = np_add cash gains\<rparr>"
    using assms(1)[unfolded calculate_investment_outlook_simple_def pay sum.case g prod.case Let_def,
        unfolded hn nat_int, folded interest_def princ_def rental_def,
        unfolded total_eq gains_eq, folded loss_def, folded benefit_def, folded cash_def]
    by (simp add: hn)
  have ll: "length loss = n" using lr lt by (simp add: loss_def np_sub_def)
  have lb: "length benefit = n" using ll by (simp add: benefit_def)
  have lc: "length cash = n" using ll lb by (simp add: cash_def np_add_def)
  have lg: "length gains = n" by (simp add: gains_def)
  have c0: "total = map (\<lambda>i. interest ! i
                  + council_rates p * (1 + annual_expense_increase p) ^ Suc i
                  + water_rates p * (1 + annual_expense_increase p) ^ Suc i
                  + land_tax p
                  + strata_fees p * (1 + annual_expense_increase p) ^ Suc i
                  + insurance p * (1 + annual_expense_increase p) ^ Suc i
                  + property_manager_rate p * rental ! i
                  + repairs_and_maintenance p
                  + depreciation p) [0..<n]"
    unfolding total_def by (rule map_cong) (simp_all add: interest_def rental_def)
  have c1: "loss = map (\<lambda>i. rental ! i - total ! i) [0..<n]"
    unfolding loss_def by (rule np_sub_indices[OF lr lt])
  have c2: "benefit = map (\<lambda>i. - loss ! i * marginal_tax_rate p) [0..<n]"
    unfolding benefit_def by (rule map_over_indices[OF ll])
  have c3: "cash = map (\<lambda>i. loss ! i + benefit ! i) [0..<n]"
    unfolding cash_def by (rule np_add_indices[OF ll lb])
  have c4: "np_add cash gains = map (\<lambda>i. cash ! i + gains ! i) [0..<n]"
    by (rule np_add_indices[OF lc lg])
  have cols: "S_Year s = [1..loan_term p]" "S_Rental_Income s = rental"
    "S_Interest_Payment s = interest" "S_Principal_Payment s = princ"
    "S_Total_Expenses_Depreciation s = total" "S_Net_Rental_Loss s = loss"
    "S_Tax_Benefit s = benefit" "S_Cashflow_after_Negative_Gearing s = cash"
    "S_Capital_Gains s = gains" "S_Final_Net_Gain_Loss s = np_add cash gains"
    unfolding s by simp_all
  show ?thesis
    apply (rule exI[of _ pay], rule exI[of _ payments], rule exI[of _ interests],
           rule exI[of _ principals])
    unfolding cols n_def[symmetric]
    by (intro conjI pay g refl rental_def interest_def princ_def c0 c1 c2 c3 gains_def c4)
qed

section \<open>The two ways of summing a year\<close>

lemma py_slice_from_end: "int (length xs) \<le> a \<Longrightarrow> py_slice xs a b = []"
  by (simp add: py_slice_def py_clamp_def Let_def)

lemma py_slice_clamp_end:
  "0 \<le> a \<Longrightarrow> int (length xs) \<le> b \<Longrightarrow> int (length xs) \<le> c \<Longrightarrow> py_slice xs a b = py_slice xs a c"
  by (simp add: py_slice_def py_clamp_def Let_def)

lemma annual_sum_agrees:
  fixes pf :: int
  assumes "0 < pf"
  shows "(if int i < int (length xs) div pf \<or> int i = int (length xs) div pf \<and> 0 < int (length xs) mod pf
          then sum_list (py_slice xs (int i * pf)
                 (if int i < int (length xs) div pf then (int i + 1) * pf
                  else int i * pf + int (length xs) mod pf))
          else 0)
         = sum_list (py_slice xs (int i * pf) ((int i + 1) * pf))"
proof -
  define L where "L = int (length xs)"
  define ny where "ny = L div pf"
  define rem where "rem = L mod pf"
  have L: "L = ny * pf + rem" by (simp add: ny_def rem_def)
  have rem: "0 \<le> rem" "rem < pf" using assms by (simp_all add: rem_def)
  consider (full) "int i < ny" | (part) "int i = ny" "0 < rem" | (exact) "int i = ny" "rem = 0"
    | (past) "ny < int i"
    using rem(1) by linarith
  then have "(if int i < ny \<or> int i = ny \<and> 0 < rem
          then sum_list (py_slice xs (int i * pf)
                 (if int i < ny then (int i + 1) * pf else int i * pf + rem))
          else 0)
         = sum_list (py_slice xs (int i * pf) ((int i + 1) * pf))"
  proof cases
    case full
    then show ?thesis by simp
  next
    case part
    have "py_slice xs (int i * pf) (int i * pf + rem) = py_slice xs (int i * pf) ((int i + 1) * pf)"
    proof (rule py_slice_clamp_end)
      show "0 \<le> int i * pf" using assms by simp
      show "int (length xs) \<le> int i * pf + rem" using L part by (simp add: L_def)
      show "int (length xs) \<le> (int i + 1) * pf"
        using L part rem(2) by (simp add: L_def algebra_simps)
    qed
    then show ?thesis using part by simp
  next
    case exact
    then have "int (length xs) \<le> int i * pf" using L by (simp add: L_def)
    then have "py_slice xs (int i * pf) ((int i + 1) * pf) = []" by (rule py_slice_from_end)
    then show ?thesis using exact by simp
  next
    case past
    then have "ny + 1 \<le> int i" by simp
    then have "(ny + 1) * pf \<le> int i * pf" using assms by (intro mult_right_mono) simp_all
    then have "int (length xs) \<le> int i * pf" using L rem(2) by (simp add: L_def algebra_simps)
    then have "py_slice xs (int i * pf) ((int i + 1) * pf) = []" by (rule py_slice_from_end)
    then show ?thesis using past by simp
  qed
  then show ?thesis unfolding ny_def rem_def L_def .
qed

lemma simple_returns:
  assumes "calculate_mortgage_payment (loan_amount p) (interest_rate p) (loan_term p)
        (payment_frequency p) = Inr pay"
  shows "\<exists>s. calculate_investment_outlook_simple p = Inr s"
proof -
  obtain payments interests principals where g:
    "generate_amortization_schedule (loan_amount p) (interest_rate p) (loan_term p)
        (payment_frequency p) pay = (payments, interests, principals)"
    by (cases "generate_amortization_schedule (loan_amount p) (interest_rate p) (loan_term p)
        (payment_frequency p) pay") auto
  show ?thesis
    unfolding calculate_investment_outlook_simple_def assms sum.case g prod.case Let_def
    by simp
qed

section \<open>Failures and the balance on doubles\<close>

lemma two_to_power: "0 \<le> e \<Longrightarrow> two_to e = 2 ^ nat e"
proof (induction e rule: two_to.induct)
  case (1 e)
  show ?case
  proof (cases "e \<le> 0")
    case True
    then have "e = 0" using 1(2) by simp
    then show ?thesis by (simp add: two_to.simps)
  next
    case False
    then have ih: "two_to (e div 2) = 2 ^ nat (e div 2)" using 1 by simp
    show ?thesis
    proof (cases "even e")
      case True
      then have "nat e = nat (e div 2) + nat (e div 2)" using False by (auto elim!: evenE)
      then show ?thesis using False True ih
        by (subst two_to.simps) (simp add: Let_def power_add)
    next
      case odd: False
      then have "nat e = Suc (nat (e div 2) + nat (e div 2))" using False by (auto elim!: oddE)
      then show ?thesis using False odd ih
        by (subst two_to.simps) (simp add: Let_def power_add)
    qed
  qed
qed

lemma to_double_zero: "to_double 0 = 0"
  by (simp add: to_double_def)

lemma to_double_one: "to_double 1 = 1"
  by code_simp

lemma binary_exponent_one: "binary_exponent 1 = 0"
  by code_simp

lemma float_of_int_zero: "float_of_int 0 = Inr 0"
  by (simp add: float_of_int_def to_double_zero)

lemma fl_period_rate_zero_frequency: "fl_period_rate annual_rate 0 = Inl ZeroDivisionError"
  by (simp add: fl_period_rate_def float_of_int_zero)

lemma fl_period_rate_zero_rate:
  "fl_period_rate 0 payments_per_year = Inr r \<Longrightarrow> r = 0"
  by (auto simp: fl_period_rate_def to_double_zero split: sum.splits if_splits)

lemma fl_pow_zero_exponent: "fl_pow x 0 = Inr 1"
  by (simp add: fl_pow_def float_of_int_zero)

lemma fl_pow_one_base: "fl_pow 1 n = Inr p \<Longrightarrow> p = 1"
  by (auto simp: fl_pow_def to_double_one binary_exponent_one Let_def
      split: sum.splits if_splits)

lemma fl_payment_fails_on_zero:
  assumes "payments_per_year = 0 \<or> years = 0 \<or> annual_rate = 0"
  shows "fl_calculate_mortgage_payment principal_amount annual_rate years payments_per_year
           = Inl ZeroDivisionError
       \<or> fl_calculate_mortgage_payment principal_amount annual_rate years payments_per_year
           = Inl OverflowError"
proof (cases "fl_period_rate annual_rate payments_per_year")
  case (Inl e)
  then have "e = ZeroDivisionError \<or> e = OverflowError"
    by (auto simp: fl_period_rate_def float_of_int_def Let_def split: sum.splits if_splits)
  then show ?thesis using Inl by (auto simp: fl_calculate_mortgage_payment_def)
next
  case (Inr r)
  then have pf: "payments_per_year \<noteq> 0"
    using fl_period_rate_zero_frequency[of annual_rate] by auto
  show ?thesis
  proof (cases "fl_pow (to_double (1 + r)) (years * payments_per_year)")
    case (Inl e)
    then have "e = ZeroDivisionError \<or> e = OverflowError"
      by (auto simp: fl_pow_def float_of_int_def Let_def split: sum.splits if_splits)
    then show ?thesis using Inl \<open>fl_period_rate annual_rate payments_per_year = Inr r\<close>
      by (auto simp: fl_calculate_mortgage_payment_def Let_def)
  next
    case p: (Inr p)
    have "p = 1"
    proof (cases "years = 0")
      case True
      then show ?thesis using p by (simp add: fl_pow_zero_exponent)
    next
      case False
      then have "annual_rate = 0" using assms pf by simp
      then have "r = 0" using Inr fl_period_rate_zero_rate by blast
      then show ?thesis using p fl_pow_one_base by (simp add: to_double_one)
    qed
    then show ?thesis using Inr p
      by (simp add: fl_calculate_mortgage_payment_def Let_def to_double_zero)
  qed
qed

lemma fl_payment_zero_frequency:
  "fl_calculate_mortgage_payment principal_amount annual_rate years 0 = Inl ZeroDivisionError"
  by (simp add: fl_calculate_mortgage_payment_def fl_period_rate_zero_frequency)


lemma outlook_negative_horizon:
  "h < 0 \<Longrightarrow> \<exists>e. calculate_investment_outlook p h = Inl e"
proof (cases "calculate_mortgage_payment (loan_amount p) (interest_rate p) (loan_term p)
        (payment_frequency p)")
  case (Inl e)
  then show ?thesis using outlook_raises by blast
next
  case (Inr pay)
  assume "h < 0"
  then show ?thesis using outlook_returns(2)[OF Inr] by blast
qed

section \<open>Claims on the amortization engine\<close>

text \<open>
  Claim C1. \<^verbatim>\<open>generate_amortization_schedule\<close> starts its running balance at the principal
  and follows the recurrence interest = balance * (annual rate / payments per year),
  principal portion = payment - interest, balance -= principal portion, for at most
  years * payments per year periods. The period in which the balance goes below zero has its
  principal portion reduced by the overshoot, is emitted as the last record, and leaves the
  balance at 0. The number of records is the minimum of years * payments per year and the
  number of periods to payoff, the first period whose balance goes below zero. (A balance
  that lands on zero exactly does not stop the loop: the test is \<open>balance < 0\<close>.)
\<close>

theorem generate_schedule_follows_recurrence:
  "let n = nat (years * payments_per_year);
       r = annual_rate / real_of_int payments_per_year;
       bal = raw_balance r payment_amount principal_amount;
       final = run_schedule principal_amount annual_rate years payments_per_year payment_amount;
       (payments, interests, principals) =
          generate_amortization_schedule principal_amount annual_rate years payments_per_year
            payment_amount;
       payoff = periods_to_payoff r payment_amount principal_amount n;
       len = (case payoff of None \<Rightarrow> n | Some m \<Rightarrow> min n m)
   in length payments = len \<and> length interests = len \<and> length principals = len
      \<and> (\<forall>i<len.
            interests ! i = bal i * r
          \<and> (if bal (Suc i) < 0
             then principals ! i = payment_amount - interests ! i + bal (Suc i)
                \<and> payments ! i = principals ! i + interests ! i
                \<and> Suc i = len
             else principals ! i = payment_amount - interests ! i
                \<and> payments ! i = payment_amount))
      \<and> balance final = (case payoff of None \<Rightarrow> bal n | Some m \<Rightarrow> 0)"
proof -
  define n where "n = nat (years * payments_per_year)"
  define r where "r = annual_rate / real_of_int payments_per_year"
  define s where "s = schedule_loop n r payment_amount (init_state principal_amount)"
  have b0: "balance (init_state principal_amount) = principal_amount"
    and l0: "payment_list (init_state principal_amount) = []"
      "interest_list (init_state principal_amount) = []" "principal_list (init_state principal_amount) = []"
    by (simp_all add: init_state_def)
  have main: "length (payment_list s) = (case periods_to_payoff r payment_amount principal_amount n of None \<Rightarrow> n | Some m \<Rightarrow> min n m)
    \<and> length (interest_list s) = (case periods_to_payoff r payment_amount principal_amount n of None \<Rightarrow> n | Some m \<Rightarrow> min n m)
    \<and> length (principal_list s) = (case periods_to_payoff r payment_amount principal_amount n of None \<Rightarrow> n | Some m \<Rightarrow> min n m)
    \<and> (\<forall>i<(case periods_to_payoff r payment_amount principal_amount n of None \<Rightarrow> n | Some m \<Rightarrow> min n m).
            interest_list s ! i = raw_balance r payment_amount principal_amount i * r
          \<and> (if raw_balance r payment_amount principal_amount (Suc i) < 0
             then principal_list s ! i = payment_amount - interest_list s ! i + raw_balance r payment_amount principal_amount (Suc i)
                \<and> payment_list s ! i = principal_list s ! i + interest_list s ! i
                \<and> Suc i = (case periods_to_payoff r payment_amount principal_amount n of None \<Rightarrow> n | Some m \<Rightarrow> min n m)
             else principal_list s ! i = payment_amount - interest_list s ! i
                \<and> payment_list s ! i = payment_amount))
    \<and> balance s = (case periods_to_payoff r payment_amount principal_amount n of None \<Rightarrow> raw_balance r payment_amount principal_amount n | Some m \<Rightarrow> 0)"
  proof (cases "periods_to_payoff r payment_amount principal_amount n")
    case None
    then have nn: "\<And>j. 1 \<le> j \<Longrightarrow> j \<le> n \<Longrightarrow> 0 \<le> raw_balance r payment_amount principal_amount j"
      by (simp add: periods_to_payoff_None)
    have nn': "\<And>j. 1 \<le> j \<Longrightarrow> j \<le> n
        \<Longrightarrow> 0 \<le> raw_balance r payment_amount (balance (init_state principal_amount)) j"
      using nn by (simp only: b0)
    note ch = schedule_loop_no_break[of n r payment_amount "init_state principal_amount", OF nn',
        folded s_def, unfolded b0 l0 append_Nil]
    have nneg: "\<And>i. i < n \<Longrightarrow> \<not> raw_balance r payment_amount principal_amount (Suc i) < 0"
      using nn by (simp add: not_less del: raw_balance.simps(2))
    show ?thesis
      using ch nneg by (simp add: None del: upt_Suc raw_balance.simps(2))
  next
    case (Some m)
    then have m: "1 \<le> m" "m \<le> n" "raw_balance r payment_amount principal_amount m < 0"
      and nn: "\<And>j. 1 \<le> j \<Longrightarrow> j < m \<Longrightarrow> 0 \<le> raw_balance r payment_amount principal_amount j"
      by (simp_all add: periods_to_payoff_Some)
    have m3: "raw_balance r payment_amount (balance (init_state principal_amount)) m < 0"
      using m(3) by (simp only: b0)
    have nn': "\<And>j. 1 \<le> j \<Longrightarrow> j < m
        \<Longrightarrow> 0 \<le> raw_balance r payment_amount (balance (init_state principal_amount)) j"
      using nn by (simp only: b0)
    note ch = schedule_loop_break[of m n r payment_amount "init_state principal_amount", OF m(1) m(2) m3 nn',
        folded s_def, unfolded b0 l0 append_Nil]
    obtain m' where m': "m = Suc m'" using m(1) by (cases m) auto
    have mn: "min n (Suc m') = Suc m'" using m(2) m' by simp
    have sign: "\<And>i. i < m \<Longrightarrow> (raw_balance r payment_amount principal_amount (Suc i) < 0) = (i = m')"
    proof -
      fix i assume "i < m"
      show "(raw_balance r payment_amount principal_amount (Suc i) < 0) = (i = m')"
      proof (cases "i = m'")
        case True then show ?thesis using m(3) m' by simp
      next
        case False
        then have "Suc i < m" using \<open>i < m\<close> m' by simp
        then have "0 \<le> raw_balance r payment_amount principal_amount (Suc i)" using nn[of "Suc i"] by simp
        then show ?thesis using False by (simp add: not_less del: raw_balance.simps(2))
      qed
    qed
    show ?thesis
      using ch sign m(3)
      by (simp add: Some mn m' nth_append del: upt_Suc raw_balance.simps(2))
  qed
  show ?thesis
    using main
    unfolding generate_amortization_schedule_def run_schedule_def Let_def s_def n_def r_def
    by simp
qed

theorem generate_schedule_follows_recurrence_witness:
  "periods_to_payoff 0 50 100 5 = Some 3
   \<and> length (fst (generate_amortization_schedule 100 0 5 1 50)) = 3
   \<and> snd (snd (generate_amortization_schedule 100 0 5 1 50)) ! 2 = 0
   \<and> balance (run_schedule 100 0 5 1 50) = 0"
proof -
  have p: "periods_to_payoff 0 50 100 5 = Some 3"
    by code_simp
  have b: "raw_balance 0 50 100 (Suc 2) = - 50"
    by code_simp
  obtain payments interests principals where
    g: "generate_amortization_schedule 100 0 5 1 50 = (payments, interests, principals)"
    by (cases "generate_amortization_schedule 100 0 5 1 50") auto
  have t: "length payments = 3
      \<and> (\<forall>i<3. interests ! i = 0
          \<and> (if raw_balance 0 50 100 (Suc i) < 0
              then principals ! i = 50 - interests ! i + raw_balance 0 50 100 (Suc i)
                \<and> payments ! i = principals ! i + interests ! i \<and> Suc i = 3
              else principals ! i = 50 - interests ! i \<and> payments ! i = 50))
      \<and> balance (run_schedule 100 0 5 1 50) = 0"
    using generate_schedule_follows_recurrence[where years = 5 and payments_per_year = 1
        and annual_rate = 0 and principal_amount = 100 and payment_amount = 50]
    unfolding Let_def g by (simp add: p del: raw_balance.simps(2) cong: if_cong)
  then have all: "\<forall>i<3. interests ! i = 0
          \<and> (if raw_balance 0 50 100 (Suc i) < 0
              then principals ! i = 50 - interests ! i + raw_balance 0 50 100 (Suc i)
                \<and> payments ! i = principals ! i + interests ! i \<and> Suc i = 3
              else principals ! i = 50 - interests ! i \<and> payments ! i = 50)"
    by blast
  have "principals ! 2 = 0"
    using all[rule_format, of 2] unfolding b by simp
  then show ?thesis using t p g by simp
qed









section \<open>Claims on input checks\<close>

text \<open>
  Claim C4, as stated: \<^verbatim>\<open>calculate_mortgage_payment\<close> fails whenever the principal, the term
  or the payment frequency is not positive or the rate is zero, the projector also whenever
  the horizon is below 1, and both return on all other inputs. The code has no such checks:
  a negative principal, a negative term and a negative payment frequency each give a number
  (the first on doubles as in exact arithmetic), a negative rate can still divide by zero,
  a horizon of 0 gives the empty table, and on doubles a positive rate as small as
  \<open>10 ^ - 17\<close> divides by zero, since 1 plus the period rate rounds to 1.
\<close>

theorem claimed_input_checks_counterexample:
  "calculate_mortgage_payment (- 100) (1 / 10) 1 2 = Inr (- (2205 / 41))
   \<and> calculate_mortgage_payment 100 (1 / 10) (- 1) 1 = Inr (- 100)
   \<and> calculate_mortgage_payment 100 (1 / 10) 1 (- 1) = Inr (- 100)
   \<and> calculate_mortgage_payment 100 (- 2) 2 1 = Inl ZeroDivisionError
   \<and> calculate_investment_outlook example_params 0
       = Inr \<lparr>Year = [], Rental_Income = [], Interest_Payment = [], Principal_Payment = [],
              Other_Expenses = [], Total_Cash_Outflows = [], Net_Cash_Flow_Before_Tax = [],
              Taxable_Income = [], Tax_Benefit = [], Net_Cash_Flow_After_Tax = [],
              Capital_Gains = [], Final_Net_Gain_Loss = []\<rparr>
   \<and> fl_calculate_mortgage_payment (- 100) (to_double (1 / 10)) 1 2
       = Inr (- (7568930776182883 / 140737488355328))
   \<and> fl_calculate_mortgage_payment 100 (to_double (1 / 10 ^ 17)) 1 1 = Inl ZeroDivisionError"
  by code_simp

text \<open>
  Claim C4, amended. \<^verbatim>\<open>calculate_mortgage_payment\<close> fails with \<open>ZeroDivisionError\<close> whenever
  the payment frequency is zero, and fails whenever the term or the rate is zero (with
  \<open>ZeroDivisionError\<close>, or with \<open>OverflowError\<close> when an integer argument does not fit a
  float); the projector fails in all these cases and whenever the horizon is negative. No
  other input is checked, and nothing is promised about the remaining inputs.
\<close>

theorem payment_and_projection_failures:
  "(payments_per_year = 0 \<longrightarrow>
      fl_calculate_mortgage_payment principal_amount annual_rate years payments_per_year
        = Inl ZeroDivisionError)
   \<and> (years = 0 \<or> annual_rate = 0 \<longrightarrow>
        fl_calculate_mortgage_payment principal_amount annual_rate years payments_per_year
          = Inl ZeroDivisionError
      \<or> fl_calculate_mortgage_payment principal_amount annual_rate years payments_per_year
          = Inl OverflowError)
   \<and> (payment_frequency p = 0 \<or> loan_term p = 0 \<or> interest_rate p = 0 \<or> h < 0 \<longrightarrow>
       (\<exists>e. calculate_investment_outlook p h = Inl e))"
proof (intro conjI impI)
  assume "payments_per_year = 0"
  then show "fl_calculate_mortgage_payment principal_amount annual_rate years payments_per_year
        = Inl ZeroDivisionError"
    by (simp add: fl_payment_zero_frequency)
next
  assume "years = 0 \<or> annual_rate = 0"
  then have "payments_per_year = 0 \<or> years = 0 \<or> annual_rate = 0" by simp
  then show "fl_calculate_mortgage_payment principal_amount annual_rate years payments_per_year
          = Inl ZeroDivisionError
      \<or> fl_calculate_mortgage_payment principal_amount annual_rate years payments_per_year
          = Inl OverflowError"
    by (rule fl_payment_fails_on_zero)
next
  assume a: "payment_frequency p = 0 \<or> loan_term p = 0 \<or> interest_rate p = 0 \<or> h < 0"
  show "\<exists>e. calculate_investment_outlook p h = Inl e"
  proof (cases "h < 0")
    case True
    then show ?thesis by (rule outlook_negative_horizon)
  next
    case False
    then have "payment_frequency p = 0 \<or> loan_term p = 0 \<or> interest_rate p = 0"
      using a by simp
    then have "calculate_mortgage_payment (loan_amount p) (interest_rate p) (loan_term p)
        (payment_frequency p) = Inl ZeroDivisionError"
      by (rule payment_zero_divisor)
    then show ?thesis using outlook_raises by blast
  qed
qed

theorem payment_and_projection_failures_witness:
  "fl_calculate_mortgage_payment 100 (1 / 16) 30 0 = Inl ZeroDivisionError
   \<and> (fl_calculate_mortgage_payment 100 0 30 52 = Inl ZeroDivisionError
      \<or> fl_calculate_mortgage_payment 100 0 30 52 = Inl OverflowError)
   \<and> (\<exists>e. calculate_investment_outlook (example_params\<lparr>interest_rate := 0\<rparr>) 3 = Inl e)
   \<and> (\<exists>e. calculate_investment_outlook example_params (- 1) = Inl e)"
proof -
  note w1 = payment_and_projection_failures[where payments_per_year = 0 and years = 30
      and annual_rate = "1 / 16" and principal_amount = 100
      and p = "example_params\<lparr>interest_rate := 0\<rparr>" and h = 3]
  note w2 = payment_and_projection_failures[where payments_per_year = 52 and years = 30
      and annual_rate = 0 and principal_amount = 100 and p = example_params and h = "- 1"]
  show ?thesis using w1 w2 by simp
qed

section \<open>Claims on the investment projector\<close>

text \<open>
  Claim C5. In every projection year \<open>i\<close> (counted from 0) of the generalized projector, the
  other expenses are council rates, water rates, strata fees and insurance, each scaled by
  (1 + annual expense increase) to the power \<open>i + 1\<close>, plus the flat land tax and repairs
  and maintenance, plus the property manager rate times the rental income of the year;
  interest, principal and depreciation are no part of it. The rental income of the year
  uses the exponent \<open>i\<close>.
\<close>

theorem other_expenses_formula:
  assumes "calculate_investment_outlook p h = Inr t" "i < nat h"
  shows "Other_Expenses t ! i
           = council_rates p * (1 + annual_expense_increase p) ^ (i + 1)
           + water_rates p * (1 + annual_expense_increase p) ^ (i + 1)
           + strata_fees p * (1 + annual_expense_increase p) ^ (i + 1)
           + insurance p * (1 + annual_expense_increase p) ^ (i + 1)
           + land_tax p + repairs_and_maintenance p
           + property_manager_rate p * Rental_Income t ! i
       \<and> Rental_Income t ! i = weekly_rental_income p * 52 * (1 + annual_rental_increase p) ^ i"
proof -
  from outlook_columns[OF assms(1)]
  have r: "Rental_Income t
        = map (\<lambda>i. weekly_rental_income p * 52 * (1 + annual_rental_increase p) ^ i) [0..<nat h]"
    and o: "Other_Expenses t
        = map (\<lambda>i. council_rates p * (1 + annual_expense_increase p) ^ Suc i
                  + water_rates p * (1 + annual_expense_increase p) ^ Suc i
                  + land_tax p
                  + strata_fees p * (1 + annual_expense_increase p) ^ Suc i
                  + insurance p * (1 + annual_expense_increase p) ^ Suc i
                  + property_manager_rate p * Rental_Income t ! i
                  + repairs_and_maintenance p) [0..<nat h]"
    by blast+
  have "Rental_Income t ! i = weekly_rental_income p * 52 * (1 + annual_rental_increase p) ^ i"
    unfolding r using assms(2) by simp
  moreover have "Other_Expenses t ! i = council_rates p * (1 + annual_expense_increase p) ^ Suc i
                  + water_rates p * (1 + annual_expense_increase p) ^ Suc i
                  + land_tax p
                  + strata_fees p * (1 + annual_expense_increase p) ^ Suc i
                  + insurance p * (1 + annual_expense_increase p) ^ Suc i
                  + property_manager_rate p * Rental_Income t ! i
                  + repairs_and_maintenance p"
    using arg_cong[OF o, of "\<lambda>xs. xs ! i"] assms(2) by (simp del: power_Suc)
  ultimately show ?thesis by (simp del: power_Suc)
qed

theorem other_expenses_formula_witness:
  "\<exists>t. calculate_investment_outlook example_params 3 = Inr t \<and> 2 < nat 3
     \<and> Other_Expenses t ! 2
         = council_rates example_params * (1 + annual_expense_increase example_params) ^ (2 + 1)
         + water_rates example_params * (1 + annual_expense_increase example_params) ^ (2 + 1)
         + strata_fees example_params * (1 + annual_expense_increase example_params) ^ (2 + 1)
         + insurance example_params * (1 + annual_expense_increase example_params) ^ (2 + 1)
         + land_tax example_params + repairs_and_maintenance example_params
         + property_manager_rate example_params * Rental_Income t ! 2
     \<and> Rental_Income t ! 2
         = weekly_rental_income example_params * 52
             * (1 + annual_rental_increase example_params) ^ 2"
proof -
  obtain t where t: "calculate_investment_outlook example_params 3 = Inr t"
    using outlook_returns(1)[OF example_payment, of 3] by auto
  show ?thesis
    using other_expenses_formula[OF t, of 2] t by simp
qed

text \<open>
  Claim C9. The capital gain of year \<open>i\<close> (counted from 0) of the generalized projector is
  property value * (1 + appreciation) ^ i * appreciation, for every year of the horizon
  (exactly, in exact arithmetic).
\<close>

theorem capital_gains_geometric:
  assumes "calculate_investment_outlook p h = Inr t" "i < nat h"
  shows "length (Capital_Gains t) = nat h
       \<and> Capital_Gains t ! i
           = property_value p * (1 + property_appreciation p) ^ i * property_appreciation p"
proof -
  from outlook_columns[OF assms(1)]
  have c: "Capital_Gains t
        = map (\<lambda>i. property_value p * (1 + property_appreciation p) ^ Suc i
                    - property_value p * (1 + property_appreciation p) ^ i) [0..<nat h]"
    by blast
  have "Capital_Gains t ! i = property_value p * (1 + property_appreciation p) ^ Suc i
                    - property_value p * (1 + property_appreciation p) ^ i"
    unfolding c using assms(2) by (simp del: power_Suc)
  also have "\<dots> = property_value p * (1 + property_appreciation p) ^ i * property_appreciation p"
    by (simp add: algebra_simps)
  finally show ?thesis unfolding c by simp
qed

theorem capital_gains_geometric_witness:
  "\<exists>t. calculate_investment_outlook example_params 3 = Inr t \<and> 2 < nat 3
     \<and> length (Capital_Gains t) = nat 3
     \<and> Capital_Gains t ! 2
         = property_value example_params * (1 + property_appreciation example_params) ^ 2
             * property_appreciation example_params"
proof -
  obtain t where t: "calculate_investment_outlook example_params 3 = Inr t"
    using outlook_returns(1)[OF example_payment, of 3] by auto
  show ?thesis
    using capital_gains_geometric[OF t, of 2] t by simp
qed

text \<open>
  Claim C10. Two runs of the generalized projector over the same horizon whose parameter
  sets agree on weekly rental income, annual rental increase, property value and property
  appreciation produce the same rental income and capital gains columns, whatever their
  loan parameters.
\<close>

theorem rental_and_gains_independent_of_loan:
  assumes "calculate_investment_outlook p1 h = Inr t1"
    and "calculate_investment_outlook p2 h = Inr t2"
    and "weekly_rental_income p1 = weekly_rental_income p2"
    and "annual_rental_increase p1 = annual_rental_increase p2"
    and "property_value p1 = property_value p2"
    and "property_appreciation p1 = property_appreciation p2"
  shows "Rental_Income t1 = Rental_Income t2 \<and> Capital_Gains t1 = Capital_Gains t2"
proof -
  from outlook_columns[OF assms(1)]
  have a: "Rental_Income t1
        = map (\<lambda>i. weekly_rental_income p1 * 52 * (1 + annual_rental_increase p1) ^ i) [0..<nat h]"
     "Capital_Gains t1
        = map (\<lambda>i. property_value p1 * (1 + property_appreciation p1) ^ Suc i
                    - property_value p1 * (1 + property_appreciation p1) ^ i) [0..<nat h]"
    by blast+
  from outlook_columns[OF assms(2)]
  have b: "Rental_Income t2
        = map (\<lambda>i. weekly_rental_income p2 * 52 * (1 + annual_rental_increase p2) ^ i) [0..<nat h]"
     "Capital_Gains t2
        = map (\<lambda>i. property_value p2 * (1 + property_appreciation p2) ^ Suc i
                    - property_value p2 * (1 + property_appreciation p2) ^ i) [0..<nat h]"
    by blast+
  show ?thesis unfolding a b assms(3,4,5,6) by simp
qed

theorem rental_and_gains_independent_of_loan_witness:
  "\<exists>t1 t2.
     calculate_investment_outlook example_params 3 = Inr t1
   \<and> calculate_investment_outlook
       (example_params\<lparr>loan_amount := 200, interest_rate := 1 / 5, loan_term := 2,
          payment_frequency := 1\<rparr>) 3 = Inr t2
   \<and> Rental_Income t1 = Rental_Income t2 \<and> Capital_Gains t1 = Capital_Gains t2"
proof -
  let ?p2 = "example_params\<lparr>loan_amount := 200, interest_rate := 1 / 5, loan_term := 2,
          payment_frequency := 1\<rparr>"
  obtain t1 where t1: "calculate_investment_outlook example_params 3 = Inr t1"
    using outlook_returns(1)[OF example_payment, of 3] by auto
  have "\<exists>pay. calculate_mortgage_payment (loan_amount ?p2) (interest_rate ?p2) (loan_term ?p2)
     (payment_frequency ?p2) = Inr pay"
    using payment_value(2)[of "1 / 5" 2 1 200] by simp
  then obtain t2 where t2: "calculate_investment_outlook ?p2 3 = Inr t2"
    using outlook_returns(1)[of ?p2 _ 3] by auto
  have "Rental_Income t1 = Rental_Income t2 \<and> Capital_Gains t1 = Capital_Gains t2"
    using rental_and_gains_independent_of_loan[OF t1 t2] by simp
  then show ?thesis using t1 t2 by blast
qed

text \<open>
  Claim C6. In the table of the generalized projector, every year index at or beyond the
  loan term has interest paid 0 and principal paid 0, so its total cash outflow is its other
  expenses alone. When the schedule ends inside a year (its length leaves a remainder
  modulo the payment frequency), that year, if inside the horizon, receives the sums over
  the remaining last periods only. (Under the computed payment the schedule stops early in
  exact arithmetic only for a negative loan amount; the sample for it has one.)
\<close>

theorem no_loan_cost_after_term:
  assumes "calculate_investment_outlook p h = Inr t"
  shows "(\<forall>i<nat h. loan_term p \<le> int i \<longrightarrow>
            Interest_Payment t ! i = 0 \<and> Principal_Payment t ! i = 0
          \<and> Total_Cash_Outflows t ! i = Other_Expenses t ! i)
       \<and> (\<exists>pay payments interests principals.
            calculate_mortgage_payment (loan_amount p) (interest_rate p) (loan_term p)
              (payment_frequency p) = Inr pay
          \<and> generate_amortization_schedule (loan_amount p) (interest_rate p) (loan_term p)
              (payment_frequency p) pay = (payments, interests, principals)
          \<and> (let full = int (length payments) div payment_frequency p;
                  rem = int (length payments) mod payment_frequency p
              in 0 < rem \<and> full < h \<longrightarrow>
                   Interest_Payment t ! nat full
                     = sum_list (drop (nat (int (length interests) - rem)) interests)
                 \<and> Principal_Payment t ! nat full
                     = sum_list (drop (nat (int (length principals) - rem)) principals)))"
proof -
  from outlook_columns[OF assms]
  obtain pay payments interests principals where
    pay: "calculate_mortgage_payment (loan_amount p) (interest_rate p) (loan_term p)
              (payment_frequency p) = Inr pay"
    and g: "generate_amortization_schedule (loan_amount p) (interest_rate p) (loan_term p)
              (payment_frequency p) pay = (payments, interests, principals)"
    and an: "(Interest_Payment t, Principal_Payment t)
        = annual_loop interests principals (payment_frequency p)
            (int (length payments) div payment_frequency p)
            (int (length payments) mod payment_frequency p)
            [0..<nat h] (replicate (nat h) 0, replicate (nat h) 0)"
    and tot: "Total_Cash_Outflows t
        = map (\<lambda>i. Interest_Payment t ! i + Principal_Payment t ! i + Other_Expenses t ! i)
            [0..<nat h]"
    by blast
  note len = generate_lengths[OF g]
  have pf: "payment_frequency p \<noteq> 0" by (rule payment_Inr_frequency[OF pay])
  have first: "\<forall>i<nat h. loan_term p \<le> int i \<longrightarrow>
            Interest_Payment t ! i = 0 \<and> Principal_Payment t ! i = 0
          \<and> Total_Cash_Outflows t ! i = Other_Expenses t ! i"
  proof (intro allI impI)
    fix i assume i: "i < nat h" and ti: "loan_term p \<le> int i"
    note nc = no_period_after_term[OF len(3) pf ti]
    have z: "Interest_Payment t ! i = 0" "Principal_Payment t ! i = 0"
      using annual_columns_nth[OF an i] nc by simp_all
    have "Total_Cash_Outflows t ! i
            = Interest_Payment t ! i + Principal_Payment t ! i + Other_Expenses t ! i"
      using arg_cong[OF tot, of "\<lambda>xs. xs ! i"] i by simp
    then show "Interest_Payment t ! i = 0 \<and> Principal_Payment t ! i = 0
          \<and> Total_Cash_Outflows t ! i = Other_Expenses t ! i"
      using z by simp
  qed
  have second: "let full = int (length payments) div payment_frequency p;
                  rem = int (length payments) mod payment_frequency p
              in 0 < rem \<and> full < h \<longrightarrow>
                   Interest_Payment t ! nat full
                     = sum_list (drop (nat (int (length interests) - rem)) interests)
                 \<and> Principal_Payment t ! nat full
                     = sum_list (drop (nat (int (length principals) - rem)) principals)"
  proof -
    define full where "full = int (length payments) div payment_frequency p"
    define rem where "rem = int (length payments) mod payment_frequency p"
    have "Interest_Payment t ! nat full
                     = sum_list (drop (nat (int (length interests) - rem)) interests)
                 \<and> Principal_Payment t ! nat full
                     = sum_list (drop (nat (int (length principals) - rem)) principals)"
      if r: "0 < rem" and f: "full < h"
    proof -
      have pos: "0 < payment_frequency p"
      proof (rule ccontr)
        assume "\<not> 0 < payment_frequency p"
        then have "payment_frequency p < 0" using pf by simp
        then have "rem \<le> 0" unfolding rem_def by (simp add: neg_mod_sign)
        then show False using r by simp
      qed
      have f0: "0 \<le> full" unfolding full_def using pos by (simp add: pos_imp_zdiv_nonneg_iff)
      have i: "nat full < nat h" using f f0 by simp
      have id: "int (nat full) = full" using f0 by simp
      have ri: "0 < int (length interests) mod payment_frequency p"
        and rp: "0 < int (length principals) mod payment_frequency p"
        using r by (simp_all add: rem_def len)
      have "Interest_Payment t ! nat full
              = sum_list (py_slice interests (full * payment_frequency p)
                            (full * payment_frequency p + rem))"
        using annual_columns_nth(1)[OF an i] r unfolding id full_def[symmetric] rem_def[symmetric]
        by simp
      moreover have "Principal_Payment t ! nat full
              = sum_list (py_slice principals (full * payment_frequency p)
                            (full * payment_frequency p + rem))"
        using annual_columns_nth(2)[OF an i] r unfolding id full_def[symmetric] rem_def[symmetric]
        by simp
      ultimately show ?thesis
        using remainder_slice[OF ri pf] remainder_slice[OF rp pf]
        by (simp add: full_def rem_def len)
    qed
    then show ?thesis unfolding Let_def full_def rem_def by blast
  qed
  show ?thesis using first pay g second by blast
qed

theorem no_loan_cost_after_term_witness:
  "(\<exists>t. calculate_investment_outlook example_params 3 = Inr t
       \<and> loan_term example_params \<le> int 2 \<and> 2 < nat 3
       \<and> Interest_Payment t ! 2 = 0 \<and> Principal_Payment t ! 2 = 0
       \<and> Total_Cash_Outflows t ! 2 = Other_Expenses t ! 2)
   \<and> (\<exists>t. calculate_investment_outlook (example_params\<lparr>loan_amount := - 100\<rparr>) 2 = Inr t
       \<and> Interest_Payment t ! 0 = - 5 \<and> Principal_Payment t ! 0 = - 100)"
proof -
  obtain t where t: "calculate_investment_outlook example_params 3 = Inr t"
    using outlook_returns(1)[OF example_payment, of 3] by auto
  have lt: "loan_term example_params \<le> int 2" by (simp add: example_params_def)
  have a: "Interest_Payment t ! 2 = 0 \<and> Principal_Payment t ! 2 = 0
       \<and> Total_Cash_Outflows t ! 2 = Other_Expenses t ! 2"
    using no_loan_cost_after_term[OF t] lt by simp
  let ?q = "example_params\<lparr>loan_amount := - 100\<rparr>"
  obtain u where u: "calculate_investment_outlook ?q 2 = Inr u"
    using outlook_returns(1)[OF early_payoff_payment, of 2] by auto
  from no_loan_cost_after_term[OF u]
  obtain pay payments interests principals where
    pay: "calculate_mortgage_payment (loan_amount ?q) (interest_rate ?q) (loan_term ?q)
              (payment_frequency ?q) = Inr pay"
    and g: "generate_amortization_schedule (loan_amount ?q) (interest_rate ?q) (loan_term ?q)
              (payment_frequency ?q) pay = (payments, interests, principals)"
    and b: "let full = int (length payments) div payment_frequency ?q;
                  rem = int (length payments) mod payment_frequency ?q
              in 0 < rem \<and> full < 2 \<longrightarrow>
                   Interest_Payment u ! nat full
                     = sum_list (drop (nat (int (length interests) - rem)) interests)
                 \<and> Principal_Payment u ! nat full
                     = sum_list (drop (nat (int (length principals) - rem)) principals)"
    by blast
  have pv: "pay = - (2205 / 41)" using pay early_payoff_payment by simp
  have sv: "payments = [- 105]" "interests = [- 5]" "principals = [- 100]"
    using g early_payoff_schedule unfolding pv by simp_all
  have f: "payment_frequency ?q = 2" by (simp add: example_params_def)
  have "Interest_Payment u ! 0 = - 5 \<and> Principal_Payment u ! 0 = - 100"
    using b unfolding sv f Let_def by simp
  then show ?thesis using t lt a u by auto
qed

section \<open>Claims on the two projector variants\<close>

text \<open>
  Claim C8, as stated: with the horizon equal to the loan term and a schedule that fills
  whole years, the simple projector and the generalized projector agree on every shared
  column, the final net gain/loss included. On the sample parameter set (one year, two
  payments, both made) the two final net gain/loss figures differ: the simple variant adds
  the capital gain to the after-tax result of the accrual (tax) computation, the
  generalized one to the after-tax cash flow, which subtracts the principal repaid and
  leaves out the depreciation.
\<close>

theorem final_net_gain_loss_differs_counterexample:
  "calculate_investment_outlook_simple example_params
     = Inr \<lparr>S_Year = [1], S_Rental_Income = [52], S_Interest_Payment = [310 / 41],
            S_Principal_Payment = [100], S_Total_Expenses_Depreciation = [8602 / 205],
            S_Net_Rental_Loss = [2058 / 205], S_Tax_Benefit = [- (1029 / 205)],
            S_Cashflow_after_Negative_Gearing = [1029 / 205], S_Capital_Gains = [100],
            S_Final_Net_Gain_Loss = [21529 / 205]\<rparr>
   \<and> calculate_investment_outlook example_params (loan_term example_params)
     = Inr \<lparr>Year = [1], Rental_Income = [52], Interest_Payment = [310 / 41],
            Principal_Payment = [100], Other_Expenses = [137 / 5],
            Total_Cash_Outflows = [27667 / 205], Net_Cash_Flow_Before_Tax = [- (17007 / 205)],
            Taxable_Income = [2058 / 205], Tax_Benefit = [- (1029 / 205)],
            Net_Cash_Flow_After_Tax = [- (18036 / 205)], Capital_Gains = [100],
            Final_Net_Gain_Loss = [2464 / 205]\<rparr>
   \<and> length (fst (generate_amortization_schedule 100 (1 / 10) 1 2 (2205 / 41))) mod 2 = 0
   \<and> (21529 / 205 :: real) \<noteq> 2464 / 205"
  by code_simp

text \<open>
  Claim C8, amended. With a positive payment frequency and the horizon equal to the loan
  term, whenever both variants return, they agree on the year, rental income, interest,
  principal, tax benefit and capital gains columns; the final net gain/loss of the simple
  variant exceeds that of the generalized variant, year by year, by the principal paid
  less the depreciation.
\<close>

theorem simple_projector_agrees_except_final:
  assumes "calculate_investment_outlook_simple p = Inr s"
    and "calculate_investment_outlook p (loan_term p) = Inr g"
    and "0 < payment_frequency p"
  shows "S_Year s = Year g
       \<and> S_Rental_Income s = Rental_Income g
       \<and> S_Interest_Payment s = Interest_Payment g
       \<and> S_Principal_Payment s = Principal_Payment g
       \<and> S_Tax_Benefit s = Tax_Benefit g
       \<and> S_Capital_Gains s = Capital_Gains g
       \<and> (\<forall>i<nat (loan_term p).
             S_Final_Net_Gain_Loss s ! i - Final_Net_Gain_Loss g ! i
               = Principal_Payment g ! i - depreciation p)"
proof -
  define n where "n = nat (loan_term p)"
  from outlook_columns[OF assms(2)]
  obtain pay payments interests principals where
    pay: "calculate_mortgage_payment (loan_amount p) (interest_rate p) (loan_term p)
              (payment_frequency p) = Inr pay"
    and sch: "generate_amortization_schedule (loan_amount p) (interest_rate p) (loan_term p)
              (payment_frequency p) pay = (payments, interests, principals)"
    and h0: "0 \<le> loan_term p"
    and an: "(Interest_Payment g, Principal_Payment g)
        = annual_loop interests principals (payment_frequency p)
            (int (length payments) div payment_frequency p)
            (int (length payments) mod payment_frequency p)
            [0..<n] (replicate n 0, replicate n 0)"
    and gy: "Year g = [1..loan_term p]"
    and gr: "Rental_Income g
        = map (\<lambda>i. weekly_rental_income p * 52 * (1 + annual_rental_increase p) ^ i) [0..<n]"
    and go: "Other_Expenses g
        = map (\<lambda>i. council_rates p * (1 + annual_expense_increase p) ^ Suc i
                  + water_rates p * (1 + annual_expense_increase p) ^ Suc i
                  + land_tax p
                  + strata_fees p * (1 + annual_expense_increase p) ^ Suc i
                  + insurance p * (1 + annual_expense_increase p) ^ Suc i
                  + property_manager_rate p * Rental_Income g ! i
                  + repairs_and_maintenance p) [0..<n]"
    and gt: "Total_Cash_Outflows g
        = map (\<lambda>i. Interest_Payment g ! i + Principal_Payment g ! i + Other_Expenses g ! i)
            [0..<n]"
    and gb: "Net_Cash_Flow_Before_Tax g
        = map (\<lambda>i. Rental_Income g ! i - Total_Cash_Outflows g ! i) [0..<n]"
    and gx: "Taxable_Income g
        = map (\<lambda>i. Rental_Income g ! i
                    - (Interest_Payment g ! i + Other_Expenses g ! i + depreciation p)) [0..<n]"
    and gtb: "Tax_Benefit g = map (\<lambda>i. - Taxable_Income g ! i * marginal_tax_rate p) [0..<n]"
    and ga: "Net_Cash_Flow_After_Tax g
        = map (\<lambda>i. Net_Cash_Flow_Before_Tax g ! i + Tax_Benefit g ! i) [0..<n]"
    and gc: "Capital_Gains g
        = map (\<lambda>i. property_value p * (1 + property_appreciation p) ^ Suc i
                    - property_value p * (1 + property_appreciation p) ^ i) [0..<n]"
    and gf: "Final_Net_Gain_Loss g
        = map (\<lambda>i. Net_Cash_Flow_After_Tax g ! i + Capital_Gains g ! i) [0..<n]"
    unfolding n_def by blast
  from simple_columns[OF assms(1) h0]
  obtain pay' payments' interests' principals' where
    pay': "calculate_mortgage_payment (loan_amount p) (interest_rate p) (loan_term p)
              (payment_frequency p) = Inr pay'"
    and sch': "generate_amortization_schedule (loan_amount p) (interest_rate p) (loan_term p)
              (payment_frequency p) pay' = (payments', interests', principals')"
    and sy: "S_Year s = [1..loan_term p]"
    and sr: "S_Rental_Income s
        = map (\<lambda>i. weekly_rental_income p * 52 * (1 + annual_rental_increase p) ^ i) [0..<n]"
    and si: "S_Interest_Payment s
        = map (\<lambda>i. sum_list (py_slice interests' (int i * payment_frequency p)
                                ((int i + 1) * payment_frequency p))) [0..<n]"
    and sp: "S_Principal_Payment s
        = map (\<lambda>i. sum_list (py_slice principals' (int i * payment_frequency p)
                                ((int i + 1) * payment_frequency p))) [0..<n]"
    and st: "S_Total_Expenses_Depreciation s
        = map (\<lambda>i. S_Interest_Payment s ! i
                  + council_rates p * (1 + annual_expense_increase p) ^ Suc i
                  + water_rates p * (1 + annual_expense_increase p) ^ Suc i
                  + land_tax p
                  + strata_fees p * (1 + annual_expense_increase p) ^ Suc i
                  + insurance p * (1 + annual_expense_increase p) ^ Suc i
                  + property_manager_rate p * S_Rental_Income s ! i
                  + repairs_and_maintenance p
                  + depreciation p) [0..<n]"
    and sl: "S_Net_Rental_Loss s
        = map (\<lambda>i. S_Rental_Income s ! i - S_Total_Expenses_Depreciation s ! i) [0..<n]"
    and stb: "S_Tax_Benefit s
        = map (\<lambda>i. - S_Net_Rental_Loss s ! i * marginal_tax_rate p) [0..<n]"
    and sc: "S_Cashflow_after_Negative_Gearing s
        = map (\<lambda>i. S_Net_Rental_Loss s ! i + S_Tax_Benefit s ! i) [0..<n]"
    and sg: "S_Capital_Gains s
        = map (\<lambda>i. property_value p * (1 + property_appreciation p) ^ Suc i
                    - property_value p * (1 + property_appreciation p) ^ i) [0..<n]"
    and sf: "S_Final_Net_Gain_Loss s
        = map (\<lambda>i. S_Cashflow_after_Negative_Gearing s ! i + S_Capital_Gains s ! i) [0..<n]"
    unfolding n_def by blast
  have same: "interests' = interests" "principals' = principals"
    using pay pay' sch sch' by simp_all
  note len = generate_lengths[OF sch]
  have lgi: "length (Interest_Payment g) = n" "length (Principal_Payment g) = n"
    using annual_loop_length[of "replicate n 0" n "replicate n 0" interests principals
        "payment_frequency p" "int (length payments) div payment_frequency p"
        "int (length payments) mod payment_frequency p"] an[symmetric]
    by simp_all
  have year: "S_Year s = Year g" unfolding sy gy ..
  have rental: "S_Rental_Income s = Rental_Income g" unfolding sr gr ..
  have gains: "S_Capital_Gains s = Capital_Gains g" unfolding sg gc ..
  have interest: "S_Interest_Payment s = Interest_Payment g"
  proof (rule nth_equalityI)
    show "length (S_Interest_Payment s) = length (Interest_Payment g)" using lgi by (simp add: si)
    fix i assume "i < length (S_Interest_Payment s)"
    then have i: "i < n" by (simp add: si)
    show "S_Interest_Payment s ! i = Interest_Payment g ! i"
      unfolding annual_columns_nth(1)[OF an i] len(1)[symmetric]
        annual_sum_agrees[OF assms(3), of i interests]
      using i by (simp add: si same)
  qed
  have princ: "S_Principal_Payment s = Principal_Payment g"
  proof (rule nth_equalityI)
    show "length (S_Principal_Payment s) = length (Principal_Payment g)" using lgi by (simp add: sp)
    fix i assume "i < length (S_Principal_Payment s)"
    then have i: "i < n" by (simp add: sp)
    show "S_Principal_Payment s ! i = Principal_Payment g ! i"
      unfolding annual_columns_nth(2)[OF an i] len(2)[symmetric]
        annual_sum_agrees[OF assms(3), of i principals]
      using i by (simp add: sp same)
  qed
  have nth: "S_Tax_Benefit s ! i = Tax_Benefit g ! i
       \<and> S_Final_Net_Gain_Loss s ! i - Final_Net_Gain_Loss g ! i
               = Principal_Payment g ! i - depreciation p" if i: "i < n" for i
  proof -
    have a: "S_Total_Expenses_Depreciation s ! i
        = Interest_Payment g ! i + Other_Expenses g ! i + depreciation p"
      using i by (simp add: st go interest rental del: power_Suc)
    have b: "S_Net_Rental_Loss s ! i = Taxable_Income g ! i"
      using i a by (simp add: sl gx rental)
    have c: "S_Tax_Benefit s ! i = Tax_Benefit g ! i"
      using i b by (simp add: stb gtb)
    have d: "S_Cashflow_after_Negative_Gearing s ! i = Taxable_Income g ! i + Tax_Benefit g ! i"
      using i b c by (simp add: sc)
    have e: "Net_Cash_Flow_After_Tax g ! i
        = Rental_Income g ! i
            - (Interest_Payment g ! i + Principal_Payment g ! i + Other_Expenses g ! i)
            + Tax_Benefit g ! i"
      using i by (simp add: ga gb gt)
    have f: "Taxable_Income g ! i = Rental_Income g ! i
                    - (Interest_Payment g ! i + Other_Expenses g ! i + depreciation p)"
      using i by (simp add: gx)
    have "S_Final_Net_Gain_Loss s ! i = S_Cashflow_after_Negative_Gearing s ! i + Capital_Gains g ! i"
      using i by (simp add: sf gains)
    moreover have "Final_Net_Gain_Loss g ! i = Net_Cash_Flow_After_Tax g ! i + Capital_Gains g ! i"
      using i by (simp add: gf)
    ultimately show ?thesis using c d e f by simp
  qed
  have benefit: "S_Tax_Benefit s = Tax_Benefit g"
  proof (rule nth_equalityI)
    show "length (S_Tax_Benefit s) = length (Tax_Benefit g)" by (simp add: stb gtb)
    fix i assume "i < length (S_Tax_Benefit s)"
    then have "i < n" by (simp add: stb)
    then show "S_Tax_Benefit s ! i = Tax_Benefit g ! i" using nth by blast
  qed
  show ?thesis
    using year rental interest princ benefit gains nth unfolding n_def by blast
qed

theorem simple_projector_agrees_except_final_witness:
  "\<exists>s g. calculate_investment_outlook_simple example_params = Inr s
     \<and> calculate_investment_outlook example_params (loan_term example_params) = Inr g
     \<and> 0 < payment_frequency example_params
     \<and> 0 < nat (loan_term example_params)
     \<and> S_Year s = Year g
     \<and> S_Rental_Income s = Rental_Income g
     \<and> S_Interest_Payment s = Interest_Payment g
     \<and> S_Principal_Payment s = Principal_Payment g
     \<and> S_Tax_Benefit s = Tax_Benefit g
     \<and> S_Capital_Gains s = Capital_Gains g
     \<and> S_Final_Net_Gain_Loss s ! 0 - Final_Net_Gain_Loss g ! 0
         = Principal_Payment g ! 0 - depreciation example_params"
proof -
  obtain s where s: "calculate_investment_outlook_simple example_params = Inr s"
    using simple_returns[OF example_payment] by blast
  have lt: "0 \<le> loan_term example_params" "0 < nat (loan_term example_params)"
    and pf: "0 < payment_frequency example_params"
    by (simp_all add: example_params_def)
  obtain g where g: "calculate_investment_outlook example_params (loan_term example_params) = Inr g"
    using outlook_returns(1)[OF example_payment lt(1)] by blast
  show ?thesis
    using simple_projector_agrees_except_final[OF s g pf] s g pf lt(2) by blast
qed

end
